theory Spec2Isabelle
  imports Complex_Main "HOL-Library.AList"
begin

chapter \<open>The Kiki ledger engine: a shallow embedding of the JavaScript sources\<close>

text \<open>
  The repository holds two ledgers side by side: the basic one
  (\<^verbatim>\<open>Blockchain\<close>, \<^verbatim>\<open>Block\<close>, \<^verbatim>\<open>Transaction\<close>, \<^verbatim>\<open>MerkleTree\<close>,
  \<^verbatim>\<open>BloomFilter\<close>) and the enhanced one (\<^verbatim>\<open>EnhancedBlockchain\<close>,
  \<^verbatim>\<open>EnhancedBlock\<close>, \<^verbatim>\<open>EnhancedTransaction\<close>, \<^verbatim>\<open>EnhancedMerkleTree\<close>,
  \<^verbatim>\<open>EnhancedBloomFilter\<close>). Both are embedded here, class by class.

  Conventions of the embedding.
  \<^item> JavaScript numbers that the ledger uses as amounts, fees, gas, indices and nonces
    are \<open>int\<close> (exact arithmetic; the rounding of doubles is not modelled). Counts that
    the source uses as lengths or repeat counts are \<open>nat\<close>.
  \<^item> A value that may be \<^verbatim>\<open>null\<close> or \<^verbatim>\<open>undefined\<close> is an \<open>option\<close>.
  \<^item> A JavaScript \<^verbatim>\<open>Map\<close> is an association list in insertion order;
    \<^verbatim>\<open>Map.set\<close> is \<open>AList.update\<close> (overwrite in place, or append), \<^verbatim>\<open>Map.get\<close>
    is \<open>map_of\<close>, \<^verbatim>\<open>Map.delete\<close> is \<open>AList.delete\<close>.
  \<^item> Every mutating method takes the object and returns the updated object.
  \<^item> The hash functions of Node's \<^verbatim>\<open>crypto\<close> module, \<^verbatim>\<open>JSON.stringify\<close> and
    \<^verbatim>\<open>Date.now\<close> are not part of the repository: they are parameters of the
    functions that call them.
  \<^item> \<^verbatim>\<open>console.log\<close> output is not modelled.
\<close>

section \<open>JavaScript helpers\<close>

datatype js_error = TypeError

text \<open>What a method call leaves behind: the value it returned, or the error it threw.\<close>

datatype 'a outcome = Returned 'a | Threw js_error

text \<open>\<^verbatim>\<open>x || d\<close> on a number: \<^verbatim>\<open>0\<close> is falsy.\<close>

definition num_or :: "int \<Rightarrow> int \<Rightarrow> int" where
  "num_or x d = (if x = 0 then d else x)"

definition nat_or :: "nat \<Rightarrow> nat \<Rightarrow> nat" where
  "nat_or x d = (if x = 0 then d else x)"

text \<open>\<^verbatim>\<open>m.get(k) || 0\<close> on a map of numbers: a missing key gives \<^verbatim>\<open>undefined\<close>, which is falsy.\<close>

definition get_or_zero :: "('k \<times> int) list \<Rightarrow> 'k \<Rightarrow> int" where
  "get_or_zero m k = (case map_of m k of None \<Rightarrow> 0 | Some v \<Rightarrow> num_or v 0)"

text \<open>\<^verbatim>\<open>!s\<close> is false exactly for a non-empty string: \<^verbatim>\<open>null\<close> and \<^verbatim>\<open>''\<close> are falsy.\<close>

definition truthy :: "string option \<Rightarrow> bool" where
  "truthy s = (case s of None \<Rightarrow> False | Some v \<Rightarrow> v \<noteq> [])"

text \<open>\<^verbatim>\<open>s.startsWith(t)\<close>.\<close>

definition startsWith :: "string \<Rightarrow> string \<Rightarrow> bool" where
  "startsWith s t = (take (length t) s = t)"

text \<open>\<^verbatim>\<open>xs[i]\<close>: \<^verbatim>\<open>undefined\<close> out of range.\<close>

definition js_nth :: "'a list \<Rightarrow> nat \<Rightarrow> 'a option" where
  "js_nth xs i = (if i < length xs then Some (xs ! i) else None)"

text \<open>String concatenation coerces \<^verbatim>\<open>undefined\<close> to the text \<^verbatim>\<open>undefined\<close> and
  \<^verbatim>\<open>null\<close> to the text \<^verbatim>\<open>null\<close>.\<close>

definition str_of_undefined :: "string option \<Rightarrow> string" where
  "str_of_undefined s = (case s of None \<Rightarrow> ''undefined'' | Some v \<Rightarrow> v)"

definition str_of_null :: "string option \<Rightarrow> string" where
  "str_of_null s = (case s of None \<Rightarrow> ''null'' | Some v \<Rightarrow> v)"

text \<open>\<^verbatim>\<open>xs.findIndex(p)\<close>: the first index whose element satisfies \<open>p\<close>; \<open>None\<close> is \<^verbatim>\<open>-1\<close>.\<close>

fun findIndex :: "('a \<Rightarrow> bool) \<Rightarrow> 'a list \<Rightarrow> nat option" where
  "findIndex p [] = None"
| "findIndex p (x # xs) =
     (if p x then Some 0 else (case findIndex p xs of None \<Rightarrow> None | Some i \<Rightarrow> Some (Suc i)))"

text \<open>\<^verbatim>\<open>xs.splice(i, 1)\<close>.\<close>

definition splice1 :: "'a list \<Rightarrow> nat \<Rightarrow> 'a list" where
  "splice1 xs i = take i xs @ drop (Suc i) xs"

section \<open>MerkleTree (src/utils/merkleTree.js)\<close>

text \<open>
  The parameter \<open>H\<close> is the hash the class applies to strings:
  \<^verbatim>\<open>CryptoUtils.doubleSha256\<close> in \<^verbatim>\<open>MerkleTree\<close>, the single SHA-256 of
  \<^verbatim>\<open>_hash\<close> in \<^verbatim>\<open>EnhancedMerkleTree\<close>, whose \<^verbatim>\<open>_buildTree\<close>, \<^verbatim>\<open>getProof\<close> and
  \<^verbatim>\<open>verifyProof\<close> have the same bodies. An element of \<^verbatim>\<open>transactions\<close> is a string
  (\<open>Some s\<close>) or \<^verbatim>\<open>null\<close> (\<open>None\<close>, the hash of an unsigned transaction), which
  \<^verbatim>\<open>_buildTree\<close> replaces by the hash of its JSON text \<^verbatim>\<open>null\<close>.
\<close>

record Proof =
  path :: "bool list"
  siblings :: "string option list"

record MerkleTree =
  mt_transactions :: "string option list"
  mt_tree :: "string list list"
  mt_root :: "string option"

definition leafOf :: "(string \<Rightarrow> string) \<Rightarrow> string option \<Rightarrow> string" where
  "leafOf H tx = (case tx of Some s \<Rightarrow> s | None \<Rightarrow> H ''null'')"

text \<open>The inner \<^verbatim>\<open>for\<close> loop of \<^verbatim>\<open>_buildTree\<close>: one level from the level below; an odd
  last node is combined with itself.\<close>

fun nextLevel :: "(string \<Rightarrow> string) \<Rightarrow> string list \<Rightarrow> string list" where
  "nextLevel H [] = []"
| "nextLevel H [left] = [H (left @ left)]"
| "nextLevel H (left # right # rest) = H (left @ right) # nextLevel H rest"

lemma length_nextLevel: "length (nextLevel H xs) = (length xs + 1) div 2"
  by (induction H xs rule: nextLevel.induct) simp_all

text \<open>The \<^verbatim>\<open>while (currentLevel.length > 1)\<close> loop: the levels above \<open>currentLevel\<close>.\<close>

function levelsAbove :: "(string \<Rightarrow> string) \<Rightarrow> string list \<Rightarrow> string list list" where
  "levelsAbove H currentLevel =
     (if length currentLevel > 1
      then (let upper = nextLevel H currentLevel in upper # levelsAbove H upper)
      else [])"
  by pat_completeness auto
termination
  by (relation "measure (\<lambda>(H, xs). length xs)") (auto simp: length_nextLevel)

declare levelsAbove.simps [simp del]

definition buildTree :: "(string \<Rightarrow> string) \<Rightarrow> string option list \<Rightarrow> string list list" where
  "buildTree H transactions =
     (if transactions = [] then []
      else (let leaves = map (leafOf H) transactions in leaves # levelsAbove H leaves))"

text \<open>\<^verbatim>\<open>this.tree.length > 0 ? this.tree[this.tree.length - 1][0] : null\<close>.\<close>

definition rootOf :: "string list list \<Rightarrow> string option" where
  "rootOf tree = (if tree = [] then None else js_nth (last tree) 0)"

definition newMerkleTree :: "(string \<Rightarrow> string) \<Rightarrow> string option list \<Rightarrow> MerkleTree" where
  "newMerkleTree H transactions =
     (let tree = buildTree H transactions
      in \<lparr>mt_transactions = transactions, mt_tree = tree, mt_root = rootOf tree\<rparr>)"

definition getRoot :: "MerkleTree \<Rightarrow> string option" where
  "getRoot t = mt_root t"

text \<open>The loop of \<^verbatim>\<open>getProof\<close> over the levels below the top one: at each level the
  direction bit and \<^verbatim>\<open>this.tree[level][siblingIndex]\<close>, which is \<^verbatim>\<open>undefined\<close> when
  the sibling index is past the end of the level.\<close>

fun proofSteps :: "string list list \<Rightarrow> nat \<Rightarrow> (bool \<times> string option) list" where
  "proofSteps [] index = []"
| "proofSteps [topLevel] index = []"
| "proofSteps (level # upper) index =
     (let isRight = (index mod 2 = 1);
          siblingIndex = (if isRight then index - 1 else index + 1)
      in (isRight, js_nth level siblingIndex) # proofSteps upper (index div 2))"

definition getProof :: "MerkleTree \<Rightarrow> string \<Rightarrow> Proof option" where
  "getProof t transactionHash =
     (if mt_tree t = [] then None
      else (case findIndex (\<lambda>h. h = transactionHash) (hd (mt_tree t)) of
              None \<Rightarrow> None
            | Some index \<Rightarrow>
                (let steps = proofSteps (mt_tree t) index
                 in Some \<lparr>path = map fst steps, siblings = map snd steps\<rparr>)))"

text \<open>The loop of \<^verbatim>\<open>verifyProof\<close>, over \<^verbatim>\<open>i < proof.path.length\<close>;
  \<^verbatim>\<open>proof.siblings[i]\<close> is \<^verbatim>\<open>undefined\<close> past the end of \<^verbatim>\<open>siblings\<close>.\<close>

fun verifyLoop :: "(string \<Rightarrow> string) \<Rightarrow> bool list \<Rightarrow> string option list \<Rightarrow> nat \<Rightarrow> string \<Rightarrow> string" where
  "verifyLoop H [] sibs i currentHash = currentHash"
| "verifyLoop H (isRight # rest) sibs i currentHash =
     (let sibling = str_of_undefined (case js_nth sibs i of None \<Rightarrow> None | Some s \<Rightarrow> s)
      in verifyLoop H rest sibs (Suc i)
           (if isRight then H (sibling @ currentHash) else H (currentHash @ sibling)))"

text \<open>\<^verbatim>\<open>MerkleTree.verifyProof\<close> reads \<^verbatim>\<open>proof.path\<close> without a guard: a \<^verbatim>\<open>null\<close>
  proof throws.\<close>

definition verifyProof ::
  "(string \<Rightarrow> string) \<Rightarrow> string \<Rightarrow> Proof option \<Rightarrow> string option \<Rightarrow> bool outcome" where
  "verifyProof H transactionHash proof expectedRoot =
     (case proof of
        None \<Rightarrow> Threw TypeError
      | Some p \<Rightarrow> Returned (Some (verifyLoop H (path p) (siblings p) 0 transactionHash) = expectedRoot))"

text \<open>\<^verbatim>\<open>addTransaction\<close>: push, rebuild, re-read the root.\<close>

definition mt_addTransaction :: "(string \<Rightarrow> string) \<Rightarrow> MerkleTree \<Rightarrow> string option \<Rightarrow> MerkleTree" where
  "mt_addTransaction H t transactionHash =
     (let txs = mt_transactions t @ [transactionHash]; tree = buildTree H txs
      in \<lparr>mt_transactions = txs, mt_tree = tree, mt_root = rootOf tree\<rparr>)"

section \<open>Transaction (class Transaction)\<close>

text \<open>
  The fields the ledger reads. The class also stores the constants \<^verbatim>\<open>type\<close> and
  \<^verbatim>\<open>chainId\<close>, the private key and the signature components \<^verbatim>\<open>v\<close>, \<^verbatim>\<open>r\<close>,
  \<^verbatim>\<open>s\<close>; they only feed the external signing and hashing.
\<close>

record Transaction =
  tx_from :: string
  tx_to :: string
  tx_value :: int
  tx_gasLimit :: int
  tx_maxPriorityFeePerGas :: int
  tx_maxFeePerGas :: int
  tx_data :: string
  tx_nonce :: int
  tx_hash :: "string option"
  tx_signature :: "string option"

text \<open>The constructor argument; a key \<^verbatim>\<open>privateKey\<close> that is absent is \<open>None\<close>.\<close>

record TransactionParams =
  p_from :: string
  p_to :: string
  p_value :: int
  p_gasLimit :: int
  p_maxPriorityFeePerGas :: int
  p_maxFeePerGas :: int
  p_data :: string
  p_nonce :: int
  p_privateKey :: "string option"

text \<open>
  The constructor. \<open>signer\<close> stands for \<^verbatim>\<open>sign()\<close>, which computes the signature
  (\<^verbatim>\<open>CryptoUtils.sign\<close>) and then the hash (\<^verbatim>\<open>doubleSha256\<close> of the JSON text of
  the signed fields); it runs only when a private key is given. Note
  \<^verbatim>\<open>params.gasLimit || 21000\<close>: a gas limit of \<^verbatim>\<open>0\<close> becomes \<^verbatim>\<open>21000\<close>.
\<close>

definition newTransaction ::
  "(Transaction \<Rightarrow> string \<Rightarrow> string \<times> string) \<Rightarrow> TransactionParams \<Rightarrow> Transaction" where
  "newTransaction signer params =
     (let tx = \<lparr>tx_from = p_from params, tx_to = p_to params,
                tx_value = num_or (p_value params) 0,
                tx_gasLimit = num_or (p_gasLimit params) 21000,
                tx_maxPriorityFeePerGas = num_or (p_maxPriorityFeePerGas params) 0,
                tx_maxFeePerGas = num_or (p_maxFeePerGas params) 0,
                tx_data = p_data params,
                tx_nonce = num_or (p_nonce params) 0,
                tx_hash = None, tx_signature = None\<rparr>
      in if truthy (p_privateKey params)
         then (case signer tx (the (p_privateKey params)) of
                 (sig, h) \<Rightarrow> tx\<lparr>tx_signature := Some sig, tx_hash := Some h\<rparr>)
         else tx)"

definition getEffectiveGasPrice :: "Transaction \<Rightarrow> int \<Rightarrow> int" where
  "getEffectiveGasPrice tx baseFeePerGas =
     (let priorityFeePerGas = min (tx_maxPriorityFeePerGas tx) (tx_maxFeePerGas tx - baseFeePerGas)
      in baseFeePerGas + priorityFeePerGas)"

definition getGasCost :: "Transaction \<Rightarrow> int \<Rightarrow> int" where
  "getGasCost tx baseFeePerGas = tx_gasLimit tx * getEffectiveGasPrice tx baseFeePerGas"

definition isValidForBaseFee :: "Transaction \<Rightarrow> int \<Rightarrow> bool" where
  "isValidForBaseFee tx baseFeePerGas =
     (let effectiveGasPrice = getEffectiveGasPrice tx baseFeePerGas
      in effectiveGasPrice \<le> tx_maxFeePerGas tx \<and> effectiveGasPrice \<ge> baseFeePerGas)"

definition getPriority :: "Transaction \<Rightarrow> int \<Rightarrow> int" where
  "getPriority tx baseFeePerGas = getEffectiveGasPrice tx baseFeePerGas - baseFeePerGas"

section \<open>Block (src/models/block.js)\<close>

text \<open>
  The transactions of a block are \<^verbatim>\<open>Transaction\<close> objects, as \<^verbatim>\<open>Blockchain\<close>
  builds them (the class also tolerates bare hash strings, which the ledger never
  passes). \<open>H\<close> is \<^verbatim>\<open>CryptoUtils.doubleSha256\<close> on strings; \<open>HB\<close> is
  \<^verbatim>\<open>doubleSha256(JSON.stringify(...))\<close> on the object that \<^verbatim>\<open>getBlockData\<close>
  serialises.
\<close>

record Block =
  b_index :: int
  b_previousHash :: "string option"
  b_transactions :: "Transaction list"
  b_timestamp :: int
  b_difficulty :: nat
  b_baseFeePerGas :: int
  b_nonce :: nat
  b_hash :: "string option"
  b_merkleRoot :: "string option"

record BlockData =
  d_index :: int
  d_previousHash :: "string option"
  d_merkleRoot :: "string option"
  d_timestamp :: int
  d_difficulty :: nat
  d_baseFeePerGas :: int
  d_nonce :: nat

record BlockParams =
  bp_index :: int
  bp_previousHash :: "string option"
  bp_transactions :: "Transaction list"
  bp_timestamp :: int
  bp_difficulty :: nat
  bp_baseFeePerGas :: int

definition calculateMerkleRoot :: "(string \<Rightarrow> string) \<Rightarrow> Block \<Rightarrow> Block" where
  "calculateMerkleRoot H b =
     (let transactionHashes = map tx_hash (b_transactions b);
          merkleTree = newMerkleTree H transactionHashes
      in b\<lparr>b_merkleRoot := getRoot merkleTree\<rparr>)"

text \<open>The constructor; \<open>now\<close> is the value of \<^verbatim>\<open>Date.now()\<close>, read when
  \<^verbatim>\<open>params.timestamp\<close> is \<^verbatim>\<open>0\<close>.\<close>

definition newBlock :: "(string \<Rightarrow> string) \<Rightarrow> int \<Rightarrow> BlockParams \<Rightarrow> Block" where
  "newBlock H now params =
     calculateMerkleRoot H
       \<lparr>b_index = bp_index params, b_previousHash = bp_previousHash params,
        b_transactions = bp_transactions params,
        b_timestamp = num_or (bp_timestamp params) now,
        b_difficulty = nat_or (bp_difficulty params) 4,
        b_baseFeePerGas = num_or (bp_baseFeePerGas params) 0,
        b_nonce = 0, b_hash = None, b_merkleRoot = None\<rparr>"

definition getBlockData :: "Block \<Rightarrow> BlockData" where
  "getBlockData b =
     \<lparr>d_index = b_index b, d_previousHash = b_previousHash b, d_merkleRoot = b_merkleRoot b,
      d_timestamp = b_timestamp b, d_difficulty = b_difficulty b,
      d_baseFeePerGas = b_baseFeePerGas b, d_nonce = b_nonce b\<rparr>"

text \<open>\<^verbatim>\<open>'0'.repeat(this.difficulty)\<close>.\<close>

definition target :: "nat \<Rightarrow> string" where
  "target difficulty = replicate difficulty CHR ''0''"

text \<open>The \<^verbatim>\<open>while (attempts < maxAttempts)\<close> loop of \<^verbatim>\<open>mine\<close>, by the number of
  attempts left. Every attempt stores its hash; a failed attempt increments the nonce.\<close>

fun mineLoop :: "(BlockData \<Rightarrow> string) \<Rightarrow> nat \<Rightarrow> Block \<Rightarrow> bool \<times> Block" where
  "mineLoop HB 0 b = (False, b)"
| "mineLoop HB (Suc attemptsLeft) b =
     (let h = HB (getBlockData b); b1 = b\<lparr>b_hash := Some h\<rparr>
      in if startsWith h (target (b_difficulty b)) then (True, b1)
         else mineLoop HB attemptsLeft (b1\<lparr>b_nonce := b_nonce b1 + 1\<rparr>))"

definition mine :: "(BlockData \<Rightarrow> string) \<Rightarrow> nat \<Rightarrow> Block \<Rightarrow> bool \<times> Block" where
  "mine HB maxAttempts b = mineLoop HB maxAttempts b"

text \<open>The default of \<^verbatim>\<open>mine(maxAttempts = 1000000)\<close>.\<close>

definition defaultMaxAttempts :: nat where
  "defaultMaxAttempts = 1000000"

definition verifyHash :: "(BlockData \<Rightarrow> string) \<Rightarrow> Block \<Rightarrow> bool" where
  "verifyHash HB b = (Some (HB (getBlockData b)) = b_hash b)"

definition verifyProofOfWork :: "Block \<Rightarrow> bool" where
  "verifyProofOfWork b =
     (if \<not> truthy (b_hash b) then False
      else startsWith (the (b_hash b)) (target (b_difficulty b)))"

definition verifyMerkleRoot :: "(string \<Rightarrow> string) \<Rightarrow> Block \<Rightarrow> bool" where
  "verifyMerkleRoot H b =
     (getRoot (newMerkleTree H (map tx_hash (b_transactions b))) = b_merkleRoot b)"

text \<open>\<^verbatim>\<open>Block.addTransaction\<close>: push and recompute the Merkle root; no limit is checked
  and the stored hash is left as it is.\<close>

definition block_addTransaction :: "(string \<Rightarrow> string) \<Rightarrow> Block \<Rightarrow> Transaction \<Rightarrow> Block" where
  "block_addTransaction H b transaction =
     calculateMerkleRoot H (b\<lparr>b_transactions := b_transactions b @ [transaction]\<rparr>)"

definition getTotalGasUsed :: "Block \<Rightarrow> int" where
  "getTotalGasUsed b = foldl (\<lambda>total tx. total + tx_gasLimit tx) 0 (b_transactions b)"

definition getTotalFees :: "Block \<Rightarrow> int" where
  "getTotalFees b =
     foldl (\<lambda>total tx. total + getGasCost tx (b_baseFeePerGas b)) 0 (b_transactions b)"

text \<open>
  \<^verbatim>\<open>calculateNextBaseFee\<close>. The source divides doubles and applies \<^verbatim>\<open>Math.floor\<close>;
  the embedding divides reals and applies \<open>\<lfloor>_\<rfloor>\<close>. With \<^verbatim>\<open>targetGasUsed = 0\<close> and
  \<^verbatim>\<open>gasUsed \<noteq> 0\<close> the quotient is \<^verbatim>\<open>NaN\<close> or infinite in JavaScript: the result is
  then \<open>None\<close> when it is \<^verbatim>\<open>NaN\<close>, \<^verbatim>\<open>Infinity\<close> or \<^verbatim>\<open>-Infinity\<close>, and \<open>Some 0\<close> in
  the one case where \<^verbatim>\<open>Math.max(0, -Infinity)\<close> makes it finite again.
\<close>

definition calculateNextBaseFee :: "Block \<Rightarrow> int \<Rightarrow> int option" where
  "calculateNextBaseFee b targetGasUsed =
     (let gasUsed = getTotalGasUsed b; currentBaseFee = b_baseFeePerGas b
      in if gasUsed = targetGasUsed then Some currentBaseFee
         else if gasUsed > targetGasUsed then
           (if targetGasUsed = 0 then None
            else (let increase = \<lfloor>real_of_int (currentBaseFee * (gasUsed - targetGasUsed))
                                    / real_of_int targetGasUsed / 8\<rfloor>
                  in Some (currentBaseFee + increase)))
         else
           (if targetGasUsed = 0
            then (if currentBaseFee * (targetGasUsed - gasUsed) > 0 then Some 0 else None)
            else (let decrease = \<lfloor>real_of_int (currentBaseFee * (targetGasUsed - gasUsed))
                                    / real_of_int targetGasUsed / 8\<rfloor>
                  in Some (max 0 (currentBaseFee - decrease)))))"

section \<open>BloomFilter (src/utils/bloomFilter.js)\<close>

text \<open>
  \<^verbatim>\<open>hashInt % this.size\<close> is \<^verbatim>\<open>NaN\<close> when the size is \<^verbatim>\<open>0\<close>, and writing
  \<^verbatim>\<open>bitArray[NaN]\<close> stores a property of that name on the array. The bit array is
  therefore modelled as the array object's property map: \<open>Some v\<close> where the array holds
  \<open>v\<close>, \<open>None\<close> where a read gives \<^verbatim>\<open>undefined\<close>.
\<close>

datatype js_index = Index nat | NaNIndex

type_synonym bit_array = "js_index \<Rightarrow> int option"

record BloomFilter =
  bf_size :: nat
  bf_hashCount :: nat
  bf_bitArray :: bit_array
  bf_itemCount :: nat

text \<open>\<^verbatim>\<open>new Array(size).fill(0)\<close>.\<close>

definition zeroArray :: "nat \<Rightarrow> bit_array" where
  "zeroArray n = (\<lambda>k. case k of Index i \<Rightarrow> (if i < n then Some 0 else None) | NaNIndex \<Rightarrow> None)"

definition newBloomFilter :: "nat \<Rightarrow> nat \<Rightarrow> BloomFilter" where
  "newBloomFilter n k =
     \<lparr>bf_size = n, bf_hashCount = k, bf_bitArray = zeroArray n, bf_itemCount = 0\<rparr>"

text \<open>\<^verbatim>\<open>x % m\<close> on non-negative integers.\<close>

definition js_mod :: "nat \<Rightarrow> nat \<Rightarrow> js_index" where
  "js_mod x m = (if m = 0 then NaNIndex else Index (x mod m))"

text \<open>
  \<^verbatim>\<open>_getHashes\<close>. The parameter \<open>hashInt item i\<close> stands for
  \<^verbatim>\<open>parseInt(sha256(item + i.toString()).substring(0, 8), 16)\<close>.
\<close>

definition getHashes :: "(string \<Rightarrow> nat \<Rightarrow> nat) \<Rightarrow> BloomFilter \<Rightarrow> string \<Rightarrow> js_index list" where
  "getHashes hashInt bf item = map (\<lambda>i. js_mod (hashInt item i) (bf_size bf)) [0..<bf_hashCount bf]"

definition bf_add :: "(string \<Rightarrow> nat \<Rightarrow> nat) \<Rightarrow> BloomFilter \<Rightarrow> string \<Rightarrow> BloomFilter" where
  "bf_add hashInt bf item =
     (let hashes = getHashes hashInt bf item
      in bf\<lparr>bf_bitArray := fold (\<lambda>h bits. bits(h \<mapsto> 1)) hashes (bf_bitArray bf),
            bf_itemCount := bf_itemCount bf + 1\<rparr>)"

text \<open>The loop of \<^verbatim>\<open>mightContain\<close> returns \<^verbatim>\<open>false\<close> at the first position whose
  bit \<^verbatim>\<open>=== 0\<close>, and \<^verbatim>\<open>true\<close> after the last.\<close>

fun allSet :: "bit_array \<Rightarrow> js_index list \<Rightarrow> bool" where
  "allSet bits [] = True"
| "allSet bits (h # hs) = (if bits h = Some 0 then False else allSet bits hs)"

definition mightContain :: "(string \<Rightarrow> nat \<Rightarrow> nat) \<Rightarrow> BloomFilter \<Rightarrow> string \<Rightarrow> bool" where
  "mightContain hashInt bf item = allSet (bf_bitArray bf) (getHashes hashInt bf item)"

section \<open>Blockchain (src/blockchain.js)\<close>

text \<open>
  What the ledger takes from outside the repository:
  \<^item> \<open>doubleSha256\<close>: \<^verbatim>\<open>CryptoUtils.doubleSha256\<close> on strings;
  \<^item> \<open>hashBlockData\<close>: \<^verbatim>\<open>doubleSha256(JSON.stringify(...))\<close> on the object of
    \<^verbatim>\<open>getBlockData\<close>;
  \<^item> \<open>hashInt\<close>: the 32-bit prefix of a SHA-256, see \<open>getHashes\<close>;
  \<^item> \<open>byteLength\<close>: \<^verbatim>\<open>Buffer.byteLength(JSON.stringify(tx.toJSON()))\<close>;
  \<^item> \<open>sign\<close>: the signing step of the \<^verbatim>\<open>Transaction\<close> constructor.
\<close>

record Env =
  doubleSha256 :: "string \<Rightarrow> string"
  hashBlockData :: "BlockData \<Rightarrow> string"
  hashInt :: "string \<Rightarrow> nat \<Rightarrow> nat"
  byteLength :: "Transaction \<Rightarrow> int"
  sign :: "Transaction \<Rightarrow> string \<Rightarrow> string \<times> string"

record Blockchain =
  bc_chain :: "Block list"
  bc_pendingTransactions :: "Transaction list"
  bc_mempool :: "(string option \<times> Transaction) list"
  bc_utxoSet :: "(string \<times> int) list"
  bc_difficulty :: nat
  bc_miningReward :: int
  bc_blockTime :: int
  bc_maxBlockSize :: int
  bc_maxTransactionsPerBlock :: int
  bc_baseFeePerGas :: int
  bc_targetGasUsed :: int
  bc_bloomFilter :: BloomFilter
  bc_peers :: "string list"

text \<open>The constructor's \<^verbatim>\<open>config\<close>; an absent key is \<^verbatim>\<open>0\<close>, which \<^verbatim>\<open>||\<close> treats alike.\<close>

record Config =
  cfg_difficulty :: nat
  cfg_miningReward :: int
  cfg_blockTime :: int
  cfg_maxBlockSize :: int
  cfg_maxTransactionsPerBlock :: int
  cfg_baseFeePerGas :: int
  cfg_targetGasUsed :: int

definition zeroHash :: string where
  "zeroHash = replicate 64 CHR ''0''"

definition systemAddress :: string where
  "systemAddress = ''0x0000000000000000000000000000000000000000''"

text \<open>The constructor with \<^verbatim>\<open>_createGenesisBlock\<close>: the genesis block is mined and
  pushed whether or not \<^verbatim>\<open>mine\<close> succeeded.\<close>

definition newBlockchain :: "Env \<Rightarrow> int \<Rightarrow> Config \<Rightarrow> Blockchain" where
  "newBlockchain env now config =
     (let difficulty = nat_or (cfg_difficulty config) 4;
          baseFeePerGas = num_or (cfg_baseFeePerGas config) 0;
          genesisBlock = newBlock (doubleSha256 env) now
            \<lparr>bp_index = 0, bp_previousHash = Some zeroHash, bp_transactions = [],
             bp_timestamp = now, bp_difficulty = difficulty, bp_baseFeePerGas = baseFeePerGas\<rparr>
      in \<lparr>bc_chain = [snd (mine (hashBlockData env) defaultMaxAttempts genesisBlock)],
          bc_pendingTransactions = [],
          bc_mempool = [],
          bc_utxoSet = [],
          bc_difficulty = difficulty,
          bc_miningReward = num_or (cfg_miningReward config) 50,
          bc_blockTime = num_or (cfg_blockTime config) 60000,
          bc_maxBlockSize = num_or (cfg_maxBlockSize config) 1000000,
          bc_maxTransactionsPerBlock = num_or (cfg_maxTransactionsPerBlock config) 1000,
          bc_baseFeePerGas = baseFeePerGas,
          bc_targetGasUsed = num_or (cfg_targetGasUsed config) 15000000,
          bc_bloomFilter = newBloomFilter 1024 3,
          bc_peers = []\<rparr>)"

definition getBalance :: "Blockchain \<Rightarrow> string \<Rightarrow> int" where
  "getBalance s address = get_or_zero (bc_utxoSet s) address"

definition validateTransaction :: "Blockchain \<Rightarrow> Transaction \<Rightarrow> bool" where
  "validateTransaction s transaction =
     (if \<not> truthy (tx_signature transaction) then False
      else (let senderBalance = getBalance s (tx_from transaction);
                totalCost = tx_value transaction + getGasCost transaction (bc_baseFeePerGas s)
            in if senderBalance < totalCost then False
               else if bc_baseFeePerGas s > 0 \<and> \<not> isValidForBaseFee transaction (bc_baseFeePerGas s)
               then False
               else True))"

text \<open>
  \<^verbatim>\<open>addTransaction\<close>. There is no nonce check. The closing \<^verbatim>\<open>console.log\<close> reads
  \<^verbatim>\<open>transaction.hash.substring\<close>, which throws on a \<^verbatim>\<open>null\<close> hash after the pool, the
  pending list and the filter were updated. The filter receives the hash;
  \<^verbatim>\<open>null + '0'\<close> is the text \<^verbatim>\<open>null0\<close>.
\<close>

definition addTransaction :: "Env \<Rightarrow> Blockchain \<Rightarrow> Transaction \<Rightarrow> bool outcome \<times> Blockchain" where
  "addTransaction env s transaction =
     (if \<not> validateTransaction s transaction then (Returned False, s)
      else if map_of (bc_mempool s) (tx_hash transaction) \<noteq> None then (Returned False, s)
      else (let s1 = s\<lparr>bc_mempool := AList.update (tx_hash transaction) transaction (bc_mempool s),
                        bc_pendingTransactions := bc_pendingTransactions s @ [transaction],
                        bc_bloomFilter :=
                          bf_add (hashInt env) (bc_bloomFilter s) (str_of_null (tx_hash transaction))\<rparr>
            in (case tx_hash transaction of
                  None \<Rightarrow> (Threw TypeError, s1)
                | Some h \<Rightarrow> (Returned True, s1))))"

text \<open>The selection loop of \<^verbatim>\<open>_selectTransactionsForBlock\<close>, over the sorted pool.\<close>

fun selectLoop ::
  "Env \<Rightarrow> Blockchain \<Rightarrow> Transaction list \<Rightarrow> Transaction list \<Rightarrow> int \<Rightarrow> int \<Rightarrow> Transaction list" where
  "selectLoop env s [] selected totalSize totalGas = selected"
| "selectLoop env s (tx # rest) selected totalSize totalGas =
     (let txSize = byteLength env tx; gasUsed = tx_gasLimit tx
      in if totalSize + txSize \<le> bc_maxBlockSize s
            \<and> totalGas + gasUsed \<le> bc_targetGasUsed s
            \<and> int (length selected) < bc_maxTransactionsPerBlock s
         then selectLoop env s rest (selected @ [tx]) (totalSize + txSize) (totalGas + gasUsed)
         else selectLoop env s rest selected totalSize totalGas)"

text \<open>\<^verbatim>\<open>Array.prototype.sort\<close> is stable; with the comparator
  \<^verbatim>\<open>priorityB - priorityA\<close> it sorts by descending priority, which is the stable
  \<open>sort_key\<close> on the negated priority.\<close>

definition selectTransactionsForBlock :: "Env \<Rightarrow> Blockchain \<Rightarrow> Transaction list" where
  "selectTransactionsForBlock env s =
     (let transactions = map snd (bc_mempool s);
          sorted = sort_key (\<lambda>tx. - getPriority tx (bc_baseFeePerGas s)) transactions
      in selectLoop env s sorted [] 0 0)"

definition validateBlock :: "Env \<Rightarrow> Blockchain \<Rightarrow> Block \<Rightarrow> bool" where
  "validateBlock env s block =
     (let latestBlock = last (bc_chain s)
      in if b_index block \<noteq> b_index latestBlock + 1 then False
         else if b_previousHash block \<noteq> b_hash latestBlock then False
         else if \<not> verifyProofOfWork block then False
         else if \<not> verifyHash (hashBlockData env) block then False
         else if \<not> verifyMerkleRoot (doubleSha256 env) block then False
         else True)"

definition addBlock :: "Env \<Rightarrow> Blockchain \<Rightarrow> Block \<Rightarrow> bool \<times> Blockchain" where
  "addBlock env s block =
     (if \<not> validateBlock env s block then (False, s)
      else (True, s\<lparr>bc_chain := bc_chain s @ [block]\<rparr>))"

text \<open>One iteration of the loop of \<^verbatim>\<open>_updateUTXOSet\<close>: the sender is debited unless it
  is the system address, then the recipient is credited (its balance read after the
  debit was stored).\<close>

definition utxoStep :: "int \<Rightarrow> (string \<times> int) list \<Rightarrow> Transaction \<Rightarrow> (string \<times> int) list" where
  "utxoStep blockBaseFee utxo tx =
     (let utxo1 =
            (if tx_from tx \<noteq> systemAddress
             then (let senderBalance = get_or_zero utxo (tx_from tx);
                       totalCost = tx_value tx + getGasCost tx blockBaseFee
                   in AList.update (tx_from tx) (senderBalance - totalCost) utxo)
             else utxo);
          recipientBalance = get_or_zero utxo1 (tx_to tx)
      in AList.update (tx_to tx) (recipientBalance + tx_value tx) utxo1)"

definition updateUTXOSet :: "Blockchain \<Rightarrow> Block \<Rightarrow> Blockchain" where
  "updateUTXOSet s block =
     s\<lparr>bc_utxoSet := foldl (utxoStep (b_baseFeePerGas block)) (bc_utxoSet s) (b_transactions block)\<rparr>"

definition removeStep ::
  "(string option \<times> Transaction) list \<times> Transaction list \<Rightarrow> Transaction
   \<Rightarrow> (string option \<times> Transaction) list \<times> Transaction list" where
  "removeStep st tx =
     (case st of (mempool, pending) \<Rightarrow>
        (AList.delete (tx_hash tx) mempool,
         (case findIndex (\<lambda>t. tx_hash t = tx_hash tx) pending of
            None \<Rightarrow> pending
          | Some i \<Rightarrow> splice1 pending i)))"

definition removeMinedTransactions :: "Blockchain \<Rightarrow> Transaction list \<Rightarrow> Blockchain" where
  "removeMinedTransactions s minedTransactions =
     (case foldl removeStep (bc_mempool s, bc_pendingTransactions s) minedTransactions of
        (mempool, pending) \<Rightarrow> s\<lparr>bc_mempool := mempool, bc_pendingTransactions := pending\<rparr>)"

text \<open>The reward transaction of \<^verbatim>\<open>mineBlock\<close>: no private key, hence no hash and no
  signature; its \<^verbatim>\<open>gasLimit: 0\<close> becomes \<^verbatim>\<open>21000\<close> in the constructor.\<close>

definition rewardTransaction :: "Env \<Rightarrow> Blockchain \<Rightarrow> string \<Rightarrow> Transaction" where
  "rewardTransaction env s minerAddress =
     newTransaction (sign env)
       \<lparr>p_from = systemAddress, p_to = minerAddress, p_value = bc_miningReward s,
        p_gasLimit = 0, p_maxPriorityFeePerGas = 0, p_maxFeePerGas = 0, p_data = [],
        p_nonce = 0, p_privateKey = None\<rparr>"

text \<open>
  \<^verbatim>\<open>mineBlock\<close>; \<open>now\<close> is \<^verbatim>\<open>Date.now()\<close>. The block that it builds and mines
  (the source's \<^verbatim>\<open>newBlock\<close>) is \<open>candidateBlock\<close>, from the transactions
  \<open>selectedTransactions\<close> and the next base fee.
  \<^item> On an empty chain \<^verbatim>\<open>getLatestBlock()\<close> is \<^verbatim>\<open>undefined\<close> and the next line throws.
  \<^item> The result is \<open>None\<close> where the next base fee is not a finite number (a target of
    \<^verbatim>\<open>0\<close>, which the constructor never stores): the embedding has no block for it.
  \<^item> The block keeps the array \<^verbatim>\<open>selectedTransactions\<close> itself, so
    \<^verbatim>\<open>newBlock.addTransaction\<close> pushes the reward transaction onto that array too, and
    \<^verbatim>\<open>_removeMinedTransactions(selectedTransactions)\<close> walks the block's transactions,
    reward included.
  \<^item> The result of \<^verbatim>\<open>addBlock\<close> is dropped.
\<close>

definition selectedTransactions :: "Env \<Rightarrow> Blockchain \<Rightarrow> Transaction list" where
  "selectedTransactions env s =
     (if bc_pendingTransactions s \<noteq> [] then selectTransactionsForBlock env s else [])"

definition candidateBlock :: "Env \<Rightarrow> int \<Rightarrow> Blockchain \<Rightarrow> int \<Rightarrow> Block" where
  "candidateBlock env now s nextBaseFee =
     (let latestBlock = last (bc_chain s)
      in newBlock (doubleSha256 env) now
           \<lparr>bp_index = b_index latestBlock + 1,
            bp_previousHash = b_hash latestBlock,
            bp_transactions = selectedTransactions env s,
            bp_timestamp = now,
            bp_difficulty = bc_difficulty s,
            bp_baseFeePerGas = nextBaseFee\<rparr>)"

definition mineBlock ::
  "Env \<Rightarrow> int \<Rightarrow> Blockchain \<Rightarrow> string \<Rightarrow> (Block option outcome \<times> Blockchain) option" where
  "mineBlock env now s minerAddress =
     (let hasTransactions = (bc_pendingTransactions s \<noteq> [])
      in if bc_chain s = [] then Some (Threw TypeError, s)
         else (case calculateNextBaseFee (last (bc_chain s)) (bc_targetGasUsed s) of
                 None \<Rightarrow> None
               | Some nextBaseFee \<Rightarrow>
                   (case mine (hashBlockData env) defaultMaxAttempts
                           (candidateBlock env now s nextBaseFee) of
                      (True, minedBlock) \<Rightarrow>
                        (let block = block_addTransaction (doubleSha256 env) minedBlock
                                       (rewardTransaction env s minerAddress);
                             s1 = snd (addBlock env s block);
                             s2 = updateUTXOSet s1 block;
                             s3 = (if hasTransactions
                                   then removeMinedTransactions s2 (b_transactions block)
                                   else s2)
                         in Some (Returned (Some block), s3))
                    | (False, failedBlock) \<Rightarrow> Some (Returned None, s))))"

text \<open>The ledger that the success branch of \<^verbatim>\<open>mineBlock\<close> leaves behind, as a function
  of the block with its reward transaction: \<^verbatim>\<open>addBlock\<close>, \<^verbatim>\<open>_updateUTXOSet\<close>, and
  \<^verbatim>\<open>_removeMinedTransactions\<close> when there were pending transactions.\<close>

definition appliedState :: "Env \<Rightarrow> Blockchain \<Rightarrow> Block \<Rightarrow> Blockchain" where
  "appliedState env s block =
     (let s2 = updateUTXOSet (snd (addBlock env s block)) block
      in if bc_pendingTransactions s \<noteq> [] then removeMinedTransactions s2 (b_transactions block)
         else s2)"

section \<open>EnhancedTransaction (class EnhancedTransaction)\<close>

record EnhancedTransaction =
  et_from :: string
  et_to :: string
  et_value :: int
  et_baseFee :: int
  et_priorityFee :: int
  et_nonce :: int
  et_data :: string
  et_witness :: "string option"
  et_hash :: "string option"
  et_witnessHash :: "string option"
  et_totalCost :: int

record EnhancedTransactionParams =
  ep_from :: string
  ep_to :: string
  ep_value :: int
  ep_baseFee :: int
  ep_priorityFee :: int
  ep_nonce :: int
  ep_data :: string
  ep_privateKey :: "string option"

text \<open>
  What the enhanced ledger takes from outside the repository:
  \<^item> \<open>sha256\<close>: SHA-256 on strings (the \<^verbatim>\<open>_hash\<close> of \<^verbatim>\<open>EnhancedMerkleTree\<close>);
  \<^item> \<open>hashSignMessage\<close>: \<^verbatim>\<open>_hash(_getSignMessage())\<close>, the witness hash;
  \<^item> \<open>signWitness\<close>: the signature and the full hash that \<^verbatim>\<open>sign()\<close> computes;
  \<^item> \<open>hashWitnessTransaction\<close>: SHA-256 of \<^verbatim>\<open>JSON.stringify(getWitnessTransaction())\<close>;
  \<^item> \<open>hashEnhancedBlockData\<close>: SHA-256 of the text of \<^verbatim>\<open>EnhancedBlock.getBlockData\<close>;
  \<^item> \<open>hashIntNamed name item i\<close>:
    \<^verbatim>\<open>parseInt(sha256(item + i.toString() + name).substring(0, 8), 16)\<close>.
\<close>

record EnhancedBlockData =
  ed_index :: int
  ed_previousHash :: "string option"
  ed_witnessMerkleRoot :: "string option"
  ed_transactionMerkleRoot :: "string option"
  ed_timestamp :: int
  ed_difficulty :: nat
  ed_minerAddress :: string
  ed_nonce :: nat
  ed_totalBaseFees :: int
  ed_totalPriorityFees :: int
  ed_blockReward :: int

record EEnv =
  sha256 :: "string \<Rightarrow> string"
  hashSignMessage :: "EnhancedTransaction \<Rightarrow> string"
  signWitness :: "EnhancedTransaction \<Rightarrow> string \<Rightarrow> string \<times> string"
  hashWitnessTransaction :: "EnhancedTransaction \<Rightarrow> string"
  hashEnhancedBlockData :: "EnhancedBlockData \<Rightarrow> string"
  hashIntNamed :: "string \<Rightarrow> string \<Rightarrow> nat \<Rightarrow> nat"

text \<open>The constructor: \<^verbatim>\<open>totalCost = value + baseFee + priorityFee\<close>; a fee of
  \<^verbatim>\<open>0\<close> becomes the fixed fee (\<^verbatim>\<open>params.baseFee || 2\<close>, \<^verbatim>\<open>params.priorityFee || 3\<close>).\<close>

definition newEnhancedTransaction :: "EEnv \<Rightarrow> EnhancedTransactionParams \<Rightarrow> EnhancedTransaction" where
  "newEnhancedTransaction env params =
     (let v = num_or (ep_value params) 0;
          bf = num_or (ep_baseFee params) 2;
          pf = num_or (ep_priorityFee params) 3;
          tx = \<lparr>et_from = ep_from params, et_to = ep_to params, et_value = v,
                et_baseFee = bf, et_priorityFee = pf,
                et_nonce = num_or (ep_nonce params) 0, et_data = ep_data params,
                et_witness = None, et_hash = None, et_witnessHash = None,
                et_totalCost = v + bf + pf\<rparr>
      in if truthy (ep_privateKey params)
         then (case signWitness env tx (the (ep_privateKey params)) of
                 (w, h) \<Rightarrow> tx\<lparr>et_witness := Some w,
                               et_witnessHash := Some (hashSignMessage env tx),
                               et_hash := Some h\<rparr>)
         else tx\<lparr>et_witnessHash := Some (hashSignMessage env tx),
                 et_hash := Some (hashSignMessage env tx)\<rparr>)"

datatype validation_error = InsufficientBalance | NonPositiveValue | InvalidAddresses

text \<open>\<^verbatim>\<open>validate\<close>: the list \<^verbatim>\<open>errors\<close>; the warnings are only logged. An address is a
  string here, falsy when empty.\<close>

definition validationErrors :: "(string \<times> int) list \<Rightarrow> EnhancedTransaction \<Rightarrow> validation_error list" where
  "validationErrors balances tx =
     (let senderBalance = get_or_zero balances (et_from tx)
      in (if senderBalance < et_totalCost tx then [InsufficientBalance] else [])
         @ (if et_value tx \<le> 0 then [NonPositiveValue] else [])
         @ (if et_from tx = [] \<or> et_to tx = [] then [InvalidAddresses] else []))"

definition isValid :: "(string \<times> int) list \<Rightarrow> EnhancedTransaction \<Rightarrow> bool" where
  "isValid balances tx = (validationErrors balances tx = [])"

section \<open>EnhancedBlock (class EnhancedBlock, in src/models/lightWalletClient.js)\<close>

record EnhancedBlock =
  eb_index :: int
  eb_previousHash :: "string option"
  eb_transactions :: "EnhancedTransaction list"
  eb_timestamp :: int
  eb_difficulty :: nat
  eb_minerAddress :: string
  eb_witnessData :: "(nat \<times> string) list"
  eb_witnessMerkleRoot :: "string option"
  eb_nonce :: nat
  eb_hash :: "string option"
  eb_merkleRoot :: "string option"
  eb_totalBaseFees :: int
  eb_totalPriorityFees :: int
  eb_blockReward :: int

record EnhancedBlockParams =
  ebp_index :: int
  ebp_previousHash :: "string option"
  ebp_transactions :: "EnhancedTransaction list"
  ebp_timestamp :: int
  ebp_difficulty :: nat
  ebp_minerAddress :: string

text \<open>\<^verbatim>\<open>a || b\<close> on strings.\<close>

definition str_or :: "string option \<Rightarrow> string option \<Rightarrow> string option" where
  "str_or a b = (if truthy a then a else b)"

text \<open>The \<^verbatim>\<open>forEach\<close> of \<^verbatim>\<open>_processTransactions\<close> collects the witnesses with their
  positions.\<close>

fun witnessEntries :: "nat \<Rightarrow> EnhancedTransaction list \<Rightarrow> (nat \<times> string) list" where
  "witnessEntries i [] = []"
| "witnessEntries i (tx # rest) =
     (if truthy (et_witness tx) then [(i, the (et_witness tx))] else [])
     @ witnessEntries (Suc i) rest"

text \<open>\<^verbatim>\<open>_processTransactions\<close>: more than four transactions are cut to the first four;
  the fee totals are recomputed from scratch.\<close>

definition processTransactions :: "EnhancedBlock \<Rightarrow> EnhancedBlock" where
  "processTransactions b =
     (let txs = (if length (eb_transactions b) > 4 then take 4 (eb_transactions b)
                 else eb_transactions b)
      in b\<lparr>eb_transactions := txs,
            eb_witnessData := witnessEntries 0 txs,
            eb_totalBaseFees := foldl (\<lambda>total tx. total + num_or (et_baseFee tx) 0) 0 txs,
            eb_totalPriorityFees := foldl (\<lambda>total tx. total + num_or (et_priorityFee tx) 0) 0 txs\<rparr>)"

text \<open>\<^verbatim>\<open>_calculateMerkleRoots\<close>, with \<^verbatim>\<open>EnhancedMerkleTree\<close> as \<open>newMerkleTree\<close> at the
  single SHA-256.\<close>

definition calculateMerkleRoots :: "EEnv \<Rightarrow> EnhancedBlock \<Rightarrow> EnhancedBlock" where
  "calculateMerkleRoots env b =
     (let witnessTransactions = map (\<lambda>tx. str_or (et_witnessHash tx) (et_hash tx)) (eb_transactions b);
          transactionHashes = map et_hash (eb_transactions b)
      in b\<lparr>eb_witnessMerkleRoot := getRoot (newMerkleTree (sha256 env) witnessTransactions),
            eb_merkleRoot := getRoot (newMerkleTree (sha256 env) transactionHashes)\<rparr>)"

definition newEnhancedBlock :: "EEnv \<Rightarrow> int \<Rightarrow> EnhancedBlockParams \<Rightarrow> EnhancedBlock" where
  "newEnhancedBlock env now params =
     calculateMerkleRoots env (processTransactions
       \<lparr>eb_index = ebp_index params, eb_previousHash = ebp_previousHash params,
        eb_transactions = ebp_transactions params,
        eb_timestamp = num_or (ebp_timestamp params) now,
        eb_difficulty = nat_or (ebp_difficulty params) 2,
        eb_minerAddress = ebp_minerAddress params,
        eb_witnessData = [], eb_witnessMerkleRoot = None,
        eb_nonce = 0, eb_hash = None, eb_merkleRoot = None,
        eb_totalBaseFees = 0, eb_totalPriorityFees = 0, eb_blockReward = 50\<rparr>)"

definition eb_getBlockData :: "EnhancedBlock \<Rightarrow> EnhancedBlockData" where
  "eb_getBlockData b =
     \<lparr>ed_index = eb_index b, ed_previousHash = eb_previousHash b,
      ed_witnessMerkleRoot = eb_witnessMerkleRoot b, ed_transactionMerkleRoot = eb_merkleRoot b,
      ed_timestamp = eb_timestamp b, ed_difficulty = eb_difficulty b,
      ed_minerAddress = eb_minerAddress b, ed_nonce = eb_nonce b,
      ed_totalBaseFees = eb_totalBaseFees b, ed_totalPriorityFees = eb_totalPriorityFees b,
      ed_blockReward = eb_blockReward b\<rparr>"

fun eb_mineLoop :: "EEnv \<Rightarrow> nat \<Rightarrow> EnhancedBlock \<Rightarrow> bool \<times> EnhancedBlock" where
  "eb_mineLoop env 0 b = (False, b)"
| "eb_mineLoop env (Suc attemptsLeft) b =
     (let h = hashEnhancedBlockData env (eb_getBlockData b); b1 = b\<lparr>eb_hash := Some h\<rparr>
      in if startsWith h (target (eb_difficulty b)) then (True, b1)
         else eb_mineLoop env attemptsLeft (b1\<lparr>eb_nonce := eb_nonce b1 + 1\<rparr>))"

definition eb_mine :: "EEnv \<Rightarrow> nat \<Rightarrow> EnhancedBlock \<Rightarrow> bool \<times> EnhancedBlock" where
  "eb_mine env maxAttempts b = eb_mineLoop env maxAttempts b"

text \<open>\<^verbatim>\<open>EnhancedBlock.addTransaction\<close>: refused on a block that already holds four.\<close>

definition eb_addTransaction :: "EEnv \<Rightarrow> EnhancedBlock \<Rightarrow> EnhancedTransaction \<Rightarrow> bool \<times> EnhancedBlock" where
  "eb_addTransaction env b transaction =
     (if length (eb_transactions b) \<ge> 4 then (False, b)
      else (True, calculateMerkleRoots env
                    (processTransactions (b\<lparr>eb_transactions := eb_transactions b @ [transaction]\<rparr>))))"

record Fees =
  totalBaseFees :: int
  totalPriorityFees :: int
  blockReward :: int
  totalMinerReward :: int
  totalBurned :: int

definition getFees :: "EnhancedBlock \<Rightarrow> Fees" where
  "getFees b =
     \<lparr>totalBaseFees = eb_totalBaseFees b, totalPriorityFees = eb_totalPriorityFees b,
      blockReward = eb_blockReward b,
      totalMinerReward = eb_totalPriorityFees b + eb_blockReward b,
      totalBurned = eb_totalBaseFees b\<rparr>"

section \<open>EnhancedBloomFilter (src/utils/enhancedBloomFilter.js)\<close>

record EnhancedBloomFilter =
  ebf_size :: nat
  ebf_hashCount :: nat
  ebf_bitArray :: bit_array
  ebf_itemCount :: nat
  ebf_name :: string
  ebf_insertedItems :: "string list"

definition newEnhancedBloomFilter :: "nat \<Rightarrow> nat \<Rightarrow> string \<Rightarrow> EnhancedBloomFilter" where
  "newEnhancedBloomFilter n k name =
     \<lparr>ebf_size = n, ebf_hashCount = k, ebf_bitArray = zeroArray n, ebf_itemCount = 0,
      ebf_name = name, ebf_insertedItems = []\<rparr>"

definition ebf_getHashes :: "EEnv \<Rightarrow> EnhancedBloomFilter \<Rightarrow> string \<Rightarrow> js_index list" where
  "ebf_getHashes env bf item =
     map (\<lambda>i. js_mod (hashIntNamed env (ebf_name bf) item i) (ebf_size bf)) [0..<ebf_hashCount bf]"

text \<open>\<^verbatim>\<open>add\<close>: an item that is falsy or not a string (\<^verbatim>\<open>null\<close>, the empty string) is
  refused and nothing is stored.\<close>

definition ebf_add :: "EEnv \<Rightarrow> EnhancedBloomFilter \<Rightarrow> string option \<Rightarrow> bool \<times> EnhancedBloomFilter" where
  "ebf_add env bf item =
     (if \<not> truthy item then (False, bf)
      else (let hashes = ebf_getHashes env bf (the item)
            in (True,
                bf\<lparr>ebf_bitArray := fold (\<lambda>h bits. bits(h \<mapsto> 1)) hashes (ebf_bitArray bf),
                   ebf_itemCount := ebf_itemCount bf + 1,
                   ebf_insertedItems :=
                     (if the item \<in> set (ebf_insertedItems bf) then ebf_insertedItems bf
                      else ebf_insertedItems bf @ [the item])\<rparr>)))"

definition ebf_mightContain :: "EEnv \<Rightarrow> EnhancedBloomFilter \<Rightarrow> string option \<Rightarrow> bool" where
  "ebf_mightContain env bf item =
     (if \<not> truthy item then False
      else allSet (ebf_bitArray bf) (ebf_getHashes env bf (the item)))"

section \<open>EnhancedBlockchain (src/enhancedBlockchain.js)\<close>

text \<open>
  The state of the enhanced ledger. \<^verbatim>\<open>EnhancedMerkleTree\<close> is the record
  \<open>MerkleTree\<close> (its \<^verbatim>\<open>leafCount\<close> and \<^verbatim>\<open>height\<close> are the lengths of
  \<open>mt_transactions\<close> and \<open>mt_tree\<close>). The registry \<^verbatim>\<open>lightWallets\<close>, which only the
  last step of a successful \<^verbatim>\<open>mineBlock\<close> touches, is left out.
\<close>

record Wallet =
  w_address :: string
  w_balance :: int
  w_nonce :: int

record EnhancedBlockchain =
  ec_chain :: "EnhancedBlock list"
  ec_pendingTransactions :: "EnhancedTransaction list"
  ec_mempool :: "(string option \<times> EnhancedTransaction) list"
  ec_balances :: "(string \<times> int) list"
  ec_nonces :: "(string \<times> int) list"
  ec_difficulty :: nat
  ec_blockReward :: int
  ec_initialBalance :: int
  ec_maxTransactionsPerBlock :: nat
  ec_bloomFilter :: EnhancedBloomFilter
  ec_merkleTree :: MerkleTree
  ec_totalCoinsBurned :: int
  ec_totalCoinsMined :: int
  ec_totalCoinsInNetwork :: int
  ec_wallets :: "(string \<times> Wallet) list"

record EnhancedConfig =
  ecfg_difficulty :: nat
  ecfg_blockReward :: int
  ecfg_initialBalance :: int

definition walletAddresses :: "string list" where
  "walletAddresses =
     [''0x1111111111111111111111111111111111111111'',
      ''0x2222222222222222222222222222222222222222'',
      ''0x3333333333333333333333333333333333333333'',
      ''0x4444444444444444444444444444444444444444'',
      ''0x5555555555555555555555555555555555555555'',
      ''0x6666666666666666666666666666666666666666'',
      ''0x7777777777777777777777777777777777777777'',
      ''0x8888888888888888888888888888888888888888'',
      ''0x9999999999999999999999999999999999999999'',
      ''0xaaaaaaaaaaaaaaaaaaaaaaaaaaaaaaaaaaaaaaaa'']"

definition ec_getBalance :: "EnhancedBlockchain \<Rightarrow> string \<Rightarrow> int" where
  "ec_getBalance s address = get_or_zero (ec_balances s) address"

text \<open>
  \<^verbatim>\<open>addTransaction\<close>: validation against the balances, then the nonce check
  \<^verbatim>\<open>transaction.nonce !== expectedNonce\<close>, then the hash is filled in if it is
  missing, and the pending list, the pool, the filter and the sender's nonce are updated.
\<close>

definition ec_addTransaction ::
  "EEnv \<Rightarrow> EnhancedBlockchain \<Rightarrow> EnhancedTransaction \<Rightarrow> bool \<times> EnhancedBlockchain" where
  "ec_addTransaction env s transaction =
     (if \<not> isValid (ec_balances s) transaction then (False, s)
      else (let expectedNonce = get_or_zero (ec_nonces s) (et_from transaction)
            in if et_nonce transaction \<noteq> expectedNonce then (False, s)
               else (let tx = (if \<not> truthy (et_hash transaction)
                               then transaction\<lparr>et_hash := Some (hashWitnessTransaction env transaction)\<rparr>
                               else transaction)
                     in (True,
                         s\<lparr>ec_pendingTransactions := ec_pendingTransactions s @ [tx],
                           ec_mempool := AList.update (et_hash tx) tx (ec_mempool s),
                           ec_bloomFilter := snd (ebf_add env (ec_bloomFilter s) (et_hash tx)),
                           ec_nonces := AList.update (et_from tx) (expectedNonce + 1) (ec_nonces s)\<rparr>))))"

text \<open>
  The constructor: ten wallets with the initial balance, the genesis block (mined and
  pushed whatever \<^verbatim>\<open>mine\<close> returns), then \<^verbatim>\<open>_loadInitialTransactions\<close>. The JSON file
  is outside the repository: \<open>seed\<close> is the list of its entries (empty when the file
  cannot be read), each built by the constructor of \<^verbatim>\<open>EnhancedTransaction\<close> without a
  private key and passed to \<^verbatim>\<open>addTransaction\<close>.
\<close>

definition loadStep :: "EEnv \<Rightarrow> EnhancedBlockchain \<Rightarrow> EnhancedTransactionParams \<Rightarrow> EnhancedBlockchain" where
  "loadStep env s txData =
     (let t0 = newEnhancedTransaction env (txData\<lparr>ep_privateKey := None\<rparr>);
          transaction = (if \<not> truthy (et_hash t0)
                         then t0\<lparr>et_hash := Some (hashWitnessTransaction env t0)\<rparr> else t0)
      in snd (ec_addTransaction env s transaction))"

definition newEnhancedBlockchain ::
  "EEnv \<Rightarrow> int \<Rightarrow> EnhancedConfig \<Rightarrow> EnhancedTransactionParams list \<Rightarrow> EnhancedBlockchain" where
  "newEnhancedBlockchain env now config seed =
     (let difficulty = nat_or (ecfg_difficulty config) 2;
          initialBalance = num_or (ecfg_initialBalance config) 300;
          genesisBlock = newEnhancedBlock env now
            \<lparr>ebp_index = 0, ebp_previousHash = Some ''0'', ebp_transactions = [],
             ebp_timestamp = now, ebp_difficulty = difficulty,
             ebp_minerAddress = systemAddress\<rparr>;
          s0 = \<lparr>ec_chain = [snd (eb_mine env defaultMaxAttempts genesisBlock)],
                ec_pendingTransactions = [],
                ec_mempool = [],
                ec_balances = map (\<lambda>a. (a, initialBalance)) walletAddresses,
                ec_nonces = map (\<lambda>a. (a, 0)) walletAddresses,
                ec_difficulty = difficulty,
                ec_blockReward = num_or (ecfg_blockReward config) 50,
                ec_initialBalance = initialBalance,
                ec_maxTransactionsPerBlock = 4,
                ec_bloomFilter = newEnhancedBloomFilter 4096 5 ''BlockchainBloomFilter'',
                ec_merkleTree = newMerkleTree (sha256 env) [],
                ec_totalCoinsBurned = 0,
                ec_totalCoinsMined = int (length walletAddresses) * initialBalance,
                ec_totalCoinsInNetwork = int (length walletAddresses) * initialBalance,
                ec_wallets = map (\<lambda>a. (a, \<lparr>w_address = a, w_balance = initialBalance, w_nonce = 0\<rparr>))
                               walletAddresses\<rparr>
      in foldl (loadStep env) s0 seed)"

text \<open>One iteration of the \<^verbatim>\<open>forEach\<close> of \<^verbatim>\<open>_updateBalances\<close>, on the balances and on
  the wallet objects that mirror them.\<close>

definition mirror :: "(string \<times> int) list \<Rightarrow> string \<Rightarrow> (string \<times> Wallet) list \<Rightarrow> (string \<times> Wallet) list" where
  "mirror balances a wallets =
     (case map_of wallets a of
        None \<Rightarrow> wallets
      | Some w \<Rightarrow> AList.update a (w\<lparr>w_balance := the (map_of balances a)\<rparr>) wallets)"

definition balanceStep :: "(string \<times> int) list \<Rightarrow> EnhancedTransaction \<Rightarrow> (string \<times> int) list" where
  "balanceStep balances tx =
     (let senderBalance = get_or_zero balances (et_from tx);
          balances1 = AList.update (et_from tx) (senderBalance - et_totalCost tx) balances;
          recipientBalance = get_or_zero balances1 (et_to tx)
      in AList.update (et_to tx) (recipientBalance + et_value tx) balances1)"

definition walletStep ::
  "(string \<times> int) list \<times> (string \<times> Wallet) list \<Rightarrow> EnhancedTransaction
   \<Rightarrow> (string \<times> int) list \<times> (string \<times> Wallet) list" where
  "walletStep st tx =
     (case st of (balances, wallets) \<Rightarrow>
        (let balances2 = balanceStep balances tx
         in (balances2, mirror balances2 (et_to tx) (mirror balances2 (et_from tx) wallets))))"

definition updateBalances :: "EnhancedBlockchain \<Rightarrow> EnhancedBlock \<Rightarrow> EnhancedBlockchain" where
  "updateBalances s block =
     (let fees = getFees block
      in case foldl walletStep (ec_balances s, ec_wallets s) (eb_transactions block) of
           (balances, wallets) \<Rightarrow>
             (let minerReward = totalMinerReward fees;
                  minerBalance = get_or_zero balances (eb_minerAddress block);
                  mined = ec_totalCoinsMined s + blockReward fees;
                  burned = ec_totalCoinsBurned s + totalBurned fees
              in s\<lparr>ec_balances := AList.update (eb_minerAddress block) (minerBalance + minerReward) balances,
                    ec_wallets := wallets,
                    ec_totalCoinsMined := mined,
                    ec_totalCoinsBurned := burned,
                    ec_totalCoinsInNetwork := mined - burned\<rparr>))"

text \<open>The removal loop of \<^verbatim>\<open>mineBlock\<close>: every pending transaction with the hash of a
  selected one is filtered out, and the hash is deleted from the pool.\<close>

definition ec_removeStep :: "EnhancedBlockchain \<Rightarrow> EnhancedTransaction \<Rightarrow> EnhancedBlockchain" where
  "ec_removeStep s tx =
     s\<lparr>ec_pendingTransactions := filter (\<lambda>t. et_hash t \<noteq> et_hash tx) (ec_pendingTransactions s),
       ec_mempool := AList.delete (et_hash tx) (ec_mempool s)\<rparr>"

text \<open>\<^verbatim>\<open>_updateEnhancedFeatures\<close>, without the light wallets.\<close>

definition updateEnhancedFeatures :: "EEnv \<Rightarrow> EnhancedBlockchain \<Rightarrow> EnhancedBlock \<Rightarrow> EnhancedBlockchain" where
  "updateEnhancedFeatures env s block =
     (let transactionHashes = map et_hash (eb_transactions block)
      in s\<lparr>ec_bloomFilter := foldl (\<lambda>bf h. snd (ebf_add env bf h)) (ec_bloomFilter s) transactionHashes,
            ec_merkleTree := foldl (mt_addTransaction (sha256 env)) (ec_merkleTree s) transactionHashes\<rparr>)"

text \<open>\<^verbatim>\<open>mineBlock\<close>; on an empty chain \<^verbatim>\<open>this.getLatestBlock().hash\<close> throws. The
  block that it builds and mines is \<open>ec_candidateBlock\<close>.\<close>

definition ec_candidateBlock :: "EEnv \<Rightarrow> int \<Rightarrow> EnhancedBlockchain \<Rightarrow> string \<Rightarrow> EnhancedBlock" where
  "ec_candidateBlock env now s minerAddress =
     newEnhancedBlock env now
       \<lparr>ebp_index = int (length (ec_chain s)),
        ebp_previousHash = eb_hash (last (ec_chain s)),
        ebp_transactions = take (ec_maxTransactionsPerBlock s) (ec_pendingTransactions s),
        ebp_timestamp = now,
        ebp_difficulty = ec_difficulty s,
        ebp_minerAddress = minerAddress\<rparr>"

definition ec_mineBlock ::
  "EEnv \<Rightarrow> int \<Rightarrow> EnhancedBlockchain \<Rightarrow> string \<Rightarrow> EnhancedBlock option outcome \<times> EnhancedBlockchain" where
  "ec_mineBlock env now s minerAddress =
     (let selectedTransactions = take (ec_maxTransactionsPerBlock s) (ec_pendingTransactions s)
      in if ec_chain s = [] then (Threw TypeError, s)
         else (case eb_mine env defaultMaxAttempts (ec_candidateBlock env now s minerAddress) of
                 (True, block) \<Rightarrow>
                   (let s1 = s\<lparr>ec_chain := ec_chain s @ [block]\<rparr>;
                        s2 = updateBalances s1 block;
                        s3 = foldl ec_removeStep s2 selectedTransactions;
                        s4 = updateEnhancedFeatures env s3 block
                    in (Returned (Some block), s4))
               | (False, failedBlock) \<Rightarrow> (Returned None, s)))"

section \<open>Notions used to state the properties\<close>

text \<open>The sum of all balances of a balance map (each key occurs once in a map that
  was built with \<open>AList.update\<close> from a list of distinct keys).\<close>

definition totalBalance :: "(string \<times> int) list \<Rightarrow> int" where
  "totalBalance balances = sum_list (map snd balances)"

text \<open>An enhanced transaction whose stored \<^verbatim>\<open>totalCost\<close> is what the constructor
  computes (\<^verbatim>\<open>fromJSON\<close> can overwrite the field).\<close>

definition wellFormed :: "EnhancedTransaction \<Rightarrow> bool" where
  "wellFormed tx = (et_totalCost tx = et_value tx + et_baseFee tx + et_priorityFee tx)"

text \<open>A sequence of calls on the enhanced ledger: \<^verbatim>\<open>addTransaction(tx)\<close>, or
  \<^verbatim>\<open>mineBlock(minerAddress)\<close> at a clock reading.\<close>

datatype ledger_call = Submit EnhancedTransaction | MineBlock string int

fun callWellFormed :: "ledger_call \<Rightarrow> bool" where
  "callWellFormed (Submit tx) = wellFormed tx"
| "callWellFormed (MineBlock minerAddress now) = True"

fun ec_call :: "EEnv \<Rightarrow> EnhancedBlockchain \<Rightarrow> ledger_call \<Rightarrow> EnhancedBlockchain" where
  "ec_call env s (Submit tx) = snd (ec_addTransaction env s tx)"
| "ec_call env s (MineBlock minerAddress now) = snd (ec_mineBlock env now s minerAddress)"

definition ec_run :: "EEnv \<Rightarrow> EnhancedBlockchain \<Rightarrow> ledger_call list \<Rightarrow> EnhancedBlockchain" where
  "ec_run env s calls = foldl (ec_call env) s calls"

text \<open>The net issuance recorded in a chain: over the blocks after the genesis block,
  the block rewards minus the burned base fees.\<close>

definition netIssuance :: "EnhancedBlock list \<Rightarrow> int" where
  "netIssuance chain =
     sum_list (map eb_blockReward (tl chain)) - sum_list (map eb_totalBaseFees (tl chain))"

text \<open>The conservation invariant of the enhanced ledger, for a given initial supply.\<close>

definition conserving :: "int \<Rightarrow> EnhancedBlockchain \<Rightarrow> bool" where
  "conserving initialSupply s =
     (ec_chain s \<noteq> []
      \<and> list_all wellFormed (ec_pendingTransactions s)
      \<and> totalBalance (ec_balances s) = initialSupply + netIssuance (ec_chain s))"

text \<open>The leaf at index \<open>i\<close> of a level of \<open>n\<close> nodes has a sibling at every level
  on its way up: its index is odd, or the next index is within the level; and so on for
  index \<open>i div 2\<close> in the level above, which has \<open>(n + 1) div 2\<close> nodes.\<close>

function paired :: "nat \<Rightarrow> nat \<Rightarrow> bool" where
  "paired n i =
     (if n > 1 then (i mod 2 = 1 \<or> i + 1 < n) \<and> paired ((n + 1) div 2) (i div 2) else True)"
  by pat_completeness auto
termination
  by (relation "measure fst") auto

declare paired.simps [simp del]

text \<open>One iteration of the loop of \<^verbatim>\<open>verifyProof\<close>, on a step of the proof (direction
  bit and sibling).\<close>

definition combine :: "(string \<Rightarrow> string) \<Rightarrow> string \<Rightarrow> bool \<times> string option \<Rightarrow> string" where
  "combine H currentHash step =
     (if fst step then H (str_of_undefined (snd step) @ currentHash)
      else H (currentHash @ str_of_undefined (snd step)))"

chapter \<open>Concrete inputs\<close>

text \<open>Named inputs at which the properties below are evaluated.\<close>





text \<open>
  A stand-in environment in which proof of work succeeds at the first attempt (every
  block hash starts with four zeros and ends with the Merkle root it covers), and one in
  which it never succeeds. String hashing is the identity.
\<close>

definition hashOk :: "BlockData \<Rightarrow> string" where
  "hashOk d = ''0000'' @ (case d_merkleRoot d of None \<Rightarrow> ''-'' | Some r \<Rightarrow> r)"

definition envOk :: Env where
  "envOk = \<lparr>doubleSha256 = (\<lambda>s. s), hashBlockData = hashOk,
            hashInt = (\<lambda>item i. length item + i), byteLength = (\<lambda>tx. 100),
            sign = (\<lambda>tx key. (''sig'', ''h'' @ tx_data tx))\<rparr>"

definition envFail :: Env where
  "envFail = envOk\<lparr>hashBlockData := (\<lambda>d. ''ffff'')\<rparr>"

text \<open>The default configuration (every key absent).\<close>

definition config0 :: Config where
  "config0 = \<lparr>cfg_difficulty = 0, cfg_miningReward = 0, cfg_blockTime = 0, cfg_maxBlockSize = 0,
              cfg_maxTransactionsPerBlock = 0, cfg_baseFeePerGas = 0, cfg_targetGasUsed = 0\<rparr>"

definition eenvOk :: EEnv where
  "eenvOk = \<lparr>sha256 = (\<lambda>s. s), hashSignMessage = (\<lambda>tx. ''w'' @ et_data tx),
             signWitness = (\<lambda>tx key. (''sig'', ''h'' @ et_data tx)),
             hashWitnessTransaction = (\<lambda>tx. ''w'' @ et_data tx),
             hashEnhancedBlockData = (\<lambda>d. ''00''),
             hashIntNamed = (\<lambda>name item i. length item + i)\<rparr>"

definition eenvFail :: EEnv where
  "eenvFail = eenvOk\<lparr>hashEnhancedBlockData := (\<lambda>d. ''ff'')\<rparr>"

definition econfig0 :: EnhancedConfig where
  "econfig0 = \<lparr>ecfg_difficulty = 0, ecfg_blockReward = 0, ecfg_initialBalance = 0\<rparr>"

definition wallet1 :: string where
  "wallet1 = ''0x1111111111111111111111111111111111111111''"

definition wallet2 :: string where
  "wallet2 = ''0x2222222222222222222222222222222222222222''"

text \<open>Unsigned enhanced transactions from the first wallet to the second, of value
  \<^verbatim>\<open>10\<close> at the fixed fees, with nonce \<open>n\<close>.\<close>

definition etx :: "int \<Rightarrow> EnhancedTransaction" where
  "etx n =
     newEnhancedTransaction eenvOk
       \<lparr>ep_from = wallet1, ep_to = wallet2, ep_value = 10, ep_baseFee = 2, ep_priorityFee = 3,
        ep_nonce = n, ep_data = ''d'', ep_privateKey = None\<rparr>"

text \<open>Signed basic transactions of value \<^verbatim>\<open>0\<close> and no fee from \<^verbatim>\<open>A\<close> to \<^verbatim>\<open>B\<close>,
  both with nonce \<^verbatim>\<open>7\<close>; they differ in their data, hence in their hash.\<close>

definition tx7 :: "string \<Rightarrow> Transaction" where
  "tx7 d =
     newTransaction (sign envOk)
       \<lparr>p_from = ''A'', p_to = ''B'', p_value = 0, p_gasLimit = 21000,
        p_maxPriorityFeePerGas = 0, p_maxFeePerGas = 0, p_data = d, p_nonce = 7,
        p_privateKey = Some ''key''\<rparr>"

text \<open>The default configuration with at most one transaction per block.\<close>

definition config1 :: Config where
  "config1 = config0\<lparr>cfg_maxTransactionsPerBlock := 1\<rparr>"

text \<open>A signed basic transaction from \<^verbatim>\<open>A\<close> to \<^verbatim>\<open>B\<close> of value \<^verbatim>\<open>10\<close>, gas limit
  \<^verbatim>\<open>1\<close>, and both fee caps \<^verbatim>\<open>1\<close>: at base fee \<^verbatim>\<open>0\<close> its gas cost is the priority
  fee \<^verbatim>\<open>1\<close>.\<close>

definition txAB :: Transaction where
  "txAB =
     newTransaction (sign envOk)
       \<lparr>p_from = ''A'', p_to = ''B'', p_value = 10, p_gasLimit = 1,
        p_maxPriorityFeePerGas = 1, p_maxFeePerGas = 1, p_data = ''p'', p_nonce = 0,
        p_privateKey = Some ''key''\<rparr>"

chapter \<open>Properties\<close>

section \<open>Basic facts: JavaScript maps and lists\<close>

lemma get_or_zero_update_same [simp]: "get_or_zero (AList.update k v m) k = v"
  by (simp add: get_or_zero_def update_conv' num_or_def)

lemma get_or_zero_update_other [simp]: "k' \<noteq> k \<Longrightarrow> get_or_zero (AList.update k v m) k' = get_or_zero m k'"
  by (simp add: get_or_zero_def update_conv')

lemma get_or_zero_map_of: "get_or_zero m k = (case map_of m k of None \<Rightarrow> 0 | Some w \<Rightarrow> w)"
  by (simp add: get_or_zero_def num_or_def split: option.splits)

lemma findIndex_None_iff: "findIndex p xs = None \<longleftrightarrow> (\<forall>x \<in> set xs. \<not> p x)"
  by (induction xs) (auto split: option.splits)

lemma findIndex_Some:
  "findIndex p xs = Some i \<Longrightarrow> i < length xs \<and> p (xs ! i) \<and> (\<forall>j < i. \<not> p (xs ! j))"
proof (induction xs arbitrary: i)
  case Nil
  then show ?case by simp
next
  case (Cons x xs)
  show ?case
  proof (cases "p x")
    case True
    with Cons.prems show ?thesis by simp
  next
    case False
    with Cons.prems obtain k where k: "findIndex p xs = Some k" "i = Suc k"
      by (auto split: option.splits)
    from Cons.IH [OF k(1)] False k(2) show ?thesis
      by (auto simp: nth_Cons split: nat.splits)
  qed
qed

section \<open>Basic facts: small Merkle trees\<close>

lemma levelsAbove_small [simp]:
  "levelsAbove H [] = []"
  "levelsAbove H [x] = []"
  "levelsAbove H (x # y # zs) = nextLevel H (x # y # zs) # levelsAbove H (nextLevel H (x # y # zs))"
  by (simp_all add: levelsAbove.simps [of H "[]"] levelsAbove.simps [of H "[x]"]
      levelsAbove.simps [of H "x # y # zs"] Let_def)

lemma levelsAbove_unfold:
  "length level > 1 \<Longrightarrow>
   levelsAbove H level = nextLevel H level # levelsAbove H (nextLevel H level)"
  by (subst levelsAbove.simps) (simp add: Let_def)

lemma levelsAbove_top: "length level \<le> 1 \<Longrightarrow> levelsAbove H level = []"
  by (subst levelsAbove.simps) simp

lemma root_of_empty [simp]: "getRoot (newMerkleTree H []) = None"
  by (simp add: getRoot_def newMerkleTree_def buildTree_def rootOf_def)

lemma root_of_single [simp]: "getRoot (newMerkleTree H [tx]) = Some (leafOf H tx)"
  by (simp add: getRoot_def newMerkleTree_def buildTree_def rootOf_def js_nth_def Let_def)

lemma tree_of_three:
  "mt_tree (newMerkleTree H [Some a, Some b, Some c])
     = [[a, b, c], [H (a @ b), H (c @ c)], [H (H (a @ b) @ H (c @ c))]]"
  by (simp add: newMerkleTree_def buildTree_def leafOf_def Let_def)

lemma root_of_three:
  "getRoot (newMerkleTree H [Some a, Some b, Some c]) = Some (H (H (a @ b) @ H (c @ c)))"
  by (simp add: getRoot_def newMerkleTree_def buildTree_def leafOf_def rootOf_def js_nth_def Let_def)

section \<open>Basic facts: proof of work\<close>

lemma defaultMaxAttempts_pos [simp]: "0 < defaultMaxAttempts"
  by (simp add: defaultMaxAttempts_def)

lemma mine_first_attempt:
  "0 < n \<Longrightarrow> startsWith (HB (getBlockData b)) (target (b_difficulty b)) \<Longrightarrow>
   mine HB n b = (True, b\<lparr>b_hash := Some (HB (getBlockData b))\<rparr>)"
  by (cases n) (simp_all add: mine_def Let_def)

lemma mineLoop_difficulty [simp]: "b_difficulty (snd (mineLoop HB n b)) = b_difficulty b"
  by (induction n arbitrary: b) (simp_all add: Let_def)

lemma mineLoop_transactions [simp]: "b_transactions (snd (mineLoop HB n b)) = b_transactions b"
  by (induction n arbitrary: b) (simp_all add: Let_def)

lemma mineLoop_frame [simp]:
  "b_index (snd (mineLoop HB n b)) = b_index b"
  "b_previousHash (snd (mineLoop HB n b)) = b_previousHash b"
  "b_timestamp (snd (mineLoop HB n b)) = b_timestamp b"
  "b_baseFeePerGas (snd (mineLoop HB n b)) = b_baseFeePerGas b"
  "b_merkleRoot (snd (mineLoop HB n b)) = b_merkleRoot b"
  by (induction n arbitrary: b) (simp_all add: Let_def)

lemma mine_frame [simp]:
  "b_index (snd (mine HB n b)) = b_index b"
  "b_previousHash (snd (mine HB n b)) = b_previousHash b"
  "b_transactions (snd (mine HB n b)) = b_transactions b"
  "b_timestamp (snd (mine HB n b)) = b_timestamp b"
  "b_difficulty (snd (mine HB n b)) = b_difficulty b"
  "b_baseFeePerGas (snd (mine HB n b)) = b_baseFeePerGas b"
  "b_merkleRoot (snd (mine HB n b)) = b_merkleRoot b"
  by (simp_all add: mine_def)

lemma mine_never:
  "(\<And>d. \<not> startsWith (HB d) (target (b_difficulty b))) \<Longrightarrow> fst (mine HB n b) = False"
  unfolding mine_def by (induction n arbitrary: b) (simp_all add: Let_def)


lemma eb_mine_first_attempt:
  "0 < n \<Longrightarrow> startsWith (hashEnhancedBlockData env (eb_getBlockData b)) (target (eb_difficulty b)) \<Longrightarrow>
   eb_mine env n b = (True, b\<lparr>eb_hash := Some (hashEnhancedBlockData env (eb_getBlockData b))\<rparr>)"
  by (cases n) (simp_all add: eb_mine_def Let_def)

lemma eb_mineLoop_difficulty [simp]: "eb_difficulty (snd (eb_mineLoop env n b)) = eb_difficulty b"
  by (induction n arbitrary: b) (simp_all add: Let_def)

lemma eb_mineLoop_transactions [simp]: "eb_transactions (snd (eb_mineLoop env n b)) = eb_transactions b"
  by (induction n arbitrary: b) (simp_all add: Let_def)

lemma eb_mineLoop_frame [simp]:
  "eb_totalBaseFees (snd (eb_mineLoop env n b)) = eb_totalBaseFees b"
  "eb_totalPriorityFees (snd (eb_mineLoop env n b)) = eb_totalPriorityFees b"
  "eb_blockReward (snd (eb_mineLoop env n b)) = eb_blockReward b"
  "eb_minerAddress (snd (eb_mineLoop env n b)) = eb_minerAddress b"
  by (induction n arbitrary: b) (simp_all add: Let_def)

lemma eb_mine_frame [simp]:
  "eb_transactions (snd (eb_mine env n b)) = eb_transactions b"
  "eb_totalBaseFees (snd (eb_mine env n b)) = eb_totalBaseFees b"
  "eb_totalPriorityFees (snd (eb_mine env n b)) = eb_totalPriorityFees b"
  "eb_blockReward (snd (eb_mine env n b)) = eb_blockReward b"
  "eb_minerAddress (snd (eb_mine env n b)) = eb_minerAddress b"
  "eb_difficulty (snd (eb_mine env n b)) = eb_difficulty b"
  by (simp_all add: eb_mine_def)

lemma eb_mine_never:
  "(\<And>d. \<not> startsWith (hashEnhancedBlockData env d) (target (eb_difficulty b))) \<Longrightarrow>
   fst (eb_mine env n b) = False"
  unfolding eb_mine_def by (induction n arbitrary: b) (simp_all add: Let_def)

section \<open>Basic facts: blocks and transactions\<close>

lemma newBlock_fields [simp]:
  "b_index (newBlock H now params) = bp_index params"
  "b_previousHash (newBlock H now params) = bp_previousHash params"
  "b_transactions (newBlock H now params) = bp_transactions params"
  "b_timestamp (newBlock H now params) = num_or (bp_timestamp params) now"
  "b_difficulty (newBlock H now params) = nat_or (bp_difficulty params) 4"
  "b_baseFeePerGas (newBlock H now params) = num_or (bp_baseFeePerGas params) 0"
  "b_nonce (newBlock H now params) = 0"
  "b_hash (newBlock H now params) = None"
  "b_merkleRoot (newBlock H now params) = getRoot (newMerkleTree H (map tx_hash (bp_transactions params)))"
  by (simp_all add: newBlock_def calculateMerkleRoot_def Let_def)

lemma block_addTransaction_fields [simp]:
  "b_transactions (block_addTransaction H b tx) = b_transactions b @ [tx]"
  "b_hash (block_addTransaction H b tx) = b_hash b"
  "b_nonce (block_addTransaction H b tx) = b_nonce b"
  "b_index (block_addTransaction H b tx) = b_index b"
  "b_previousHash (block_addTransaction H b tx) = b_previousHash b"
  "b_timestamp (block_addTransaction H b tx) = b_timestamp b"
  "b_difficulty (block_addTransaction H b tx) = b_difficulty b"
  "b_baseFeePerGas (block_addTransaction H b tx) = b_baseFeePerGas b"
  "b_merkleRoot (block_addTransaction H b tx) =
     getRoot (newMerkleTree H (map tx_hash (b_transactions b) @ [tx_hash tx]))"
  by (simp_all add: block_addTransaction_def calculateMerkleRoot_def Let_def)

lemma rewardTransaction_fields [simp]:
  "tx_from (rewardTransaction env s a) = systemAddress"
  "tx_to (rewardTransaction env s a) = a"
  "tx_value (rewardTransaction env s a) = bc_miningReward s"
  "tx_gasLimit (rewardTransaction env s a) = 21000"
  "tx_maxPriorityFeePerGas (rewardTransaction env s a) = 0"
  "tx_maxFeePerGas (rewardTransaction env s a) = 0"
  "tx_hash (rewardTransaction env s a) = None"
  "tx_signature (rewardTransaction env s a) = None"
  by (simp_all add: rewardTransaction_def newTransaction_def truthy_def num_or_def Let_def)

lemma getTotalGasUsed_sum:
  "getTotalGasUsed b = sum_list (map tx_gasLimit (b_transactions b))"
proof -
  have "foldl (\<lambda>total tx. total + tx_gasLimit tx) a xs = a + sum_list (map tx_gasLimit xs)"
    for a and xs :: "Transaction list"
    by (induction xs arbitrary: a) simp_all
  then show ?thesis by (simp add: getTotalGasUsed_def)
qed

lemma nextBaseFee_empty_block:
  "b_transactions b = [] \<Longrightarrow> b_baseFeePerGas b = 0 \<Longrightarrow> 0 < t \<Longrightarrow> calculateNextBaseFee b t = Some 0"
  by (simp add: calculateNextBaseFee_def getTotalGasUsed_def Let_def)

lemma foldl_fee_sum:
  "foldl (\<lambda>total tx. total + num_or (f tx) 0) a txs = a + sum_list (map f txs)"
  by (induction txs arbitrary: a) (simp_all add: num_or_def)

lemma processTransactions_fields [simp]:
  "eb_transactions (processTransactions b) = take 4 (eb_transactions b)"
  "eb_totalBaseFees (processTransactions b) = sum_list (map et_baseFee (take 4 (eb_transactions b)))"
  "eb_totalPriorityFees (processTransactions b) = sum_list (map et_priorityFee (take 4 (eb_transactions b)))"
  "eb_blockReward (processTransactions b) = eb_blockReward b"
  "eb_minerAddress (processTransactions b) = eb_minerAddress b"
  "eb_difficulty (processTransactions b) = eb_difficulty b"
  by (simp_all add: processTransactions_def Let_def foldl_fee_sum)

lemma calculateMerkleRoots_fields [simp]:
  "eb_transactions (calculateMerkleRoots env b) = eb_transactions b"
  "eb_totalBaseFees (calculateMerkleRoots env b) = eb_totalBaseFees b"
  "eb_totalPriorityFees (calculateMerkleRoots env b) = eb_totalPriorityFees b"
  "eb_blockReward (calculateMerkleRoots env b) = eb_blockReward b"
  "eb_minerAddress (calculateMerkleRoots env b) = eb_minerAddress b"
  "eb_difficulty (calculateMerkleRoots env b) = eb_difficulty b"
  by (simp_all add: calculateMerkleRoots_def Let_def)

lemma newEnhancedBlock_fields [simp]:
  "eb_transactions (newEnhancedBlock env now params) = take 4 (ebp_transactions params)"
  "eb_totalBaseFees (newEnhancedBlock env now params) = sum_list (map et_baseFee (take 4 (ebp_transactions params)))"
  "eb_totalPriorityFees (newEnhancedBlock env now params) = sum_list (map et_priorityFee (take 4 (ebp_transactions params)))"
  "eb_blockReward (newEnhancedBlock env now params) = 50"
  "eb_minerAddress (newEnhancedBlock env now params) = ebp_minerAddress params"
  "eb_difficulty (newEnhancedBlock env now params) = nat_or (ebp_difficulty params) 2"
  by (simp_all add: newEnhancedBlock_def)

lemma ec_candidateBlock_fields [simp]:
  "eb_transactions (ec_candidateBlock env now s a)
     = take 4 (take (ec_maxTransactionsPerBlock s) (ec_pendingTransactions s))"
  "eb_blockReward (ec_candidateBlock env now s a) = 50"
  "eb_totalBaseFees (ec_candidateBlock env now s a)
     = sum_list (map et_baseFee (take 4 (take (ec_maxTransactionsPerBlock s) (ec_pendingTransactions s))))"
  "eb_totalPriorityFees (ec_candidateBlock env now s a)
     = sum_list (map et_priorityFee (take 4 (take (ec_maxTransactionsPerBlock s) (ec_pendingTransactions s))))"
  by (simp_all add: ec_candidateBlock_def)

lemma wellFormed_newEnhancedTransaction: "wellFormed (newEnhancedTransaction env params)"
  by (simp add: wellFormed_def newEnhancedTransaction_def Let_def split: prod.splits)

section \<open>Basic facts: ledgers\<close>

lemma newBlockchain_utxoSet [simp]: "bc_utxoSet (newBlockchain env now config) = []"
  by (simp add: newBlockchain_def Let_def)

lemma newBlockchain_chain_nonempty [simp]: "bc_chain (newBlockchain env now config) \<noteq> []"
  by (simp add: newBlockchain_def Let_def)

lemma newBlockchain_fields [simp]:
  "bc_mempool (newBlockchain env now config) = []"
  "bc_pendingTransactions (newBlockchain env now config) = []"
  "bc_baseFeePerGas (newBlockchain env now config) = num_or (cfg_baseFeePerGas config) 0"
  "bc_difficulty (newBlockchain env now config) = nat_or (cfg_difficulty config) 4"
  "bc_targetGasUsed (newBlockchain env now config) = num_or (cfg_targetGasUsed config) 15000000"
  "bc_miningReward (newBlockchain env now config) = num_or (cfg_miningReward config) 50"
  "bc_maxTransactionsPerBlock (newBlockchain env now config) = num_or (cfg_maxTransactionsPerBlock config) 1000"
  "bc_maxBlockSize (newBlockchain env now config) = num_or (cfg_maxBlockSize config) 1000000"
  by (simp_all add: newBlockchain_def Let_def)

lemma genesis_fields [simp]:
  "b_transactions (last (bc_chain (newBlockchain env now config))) = []"
  "b_baseFeePerGas (last (bc_chain (newBlockchain env now config))) = num_or (cfg_baseFeePerGas config) 0"
  "b_index (last (bc_chain (newBlockchain env now config))) = 0"
  by (simp_all add: newBlockchain_def Let_def num_or_def)

lemma newEnhancedBlockchain_empty:
  "newEnhancedBlockchain env now config [] =
     \<lparr>ec_chain = [snd (eb_mine env defaultMaxAttempts (newEnhancedBlock env now
            \<lparr>ebp_index = 0, ebp_previousHash = Some ''0'', ebp_transactions = [],
             ebp_timestamp = now, ebp_difficulty = nat_or (ecfg_difficulty config) 2,
             ebp_minerAddress = systemAddress\<rparr>))],
      ec_pendingTransactions = [],
      ec_mempool = [],
      ec_balances = map (\<lambda>a. (a, num_or (ecfg_initialBalance config) 300)) walletAddresses,
      ec_nonces = map (\<lambda>a. (a, 0)) walletAddresses,
      ec_difficulty = nat_or (ecfg_difficulty config) 2,
      ec_blockReward = num_or (ecfg_blockReward config) 50,
      ec_initialBalance = num_or (ecfg_initialBalance config) 300,
      ec_maxTransactionsPerBlock = 4,
      ec_bloomFilter = newEnhancedBloomFilter 4096 5 ''BlockchainBloomFilter'',
      ec_merkleTree = newMerkleTree (sha256 env) [],
      ec_totalCoinsBurned = 0,
      ec_totalCoinsMined = int (length walletAddresses) * num_or (ecfg_initialBalance config) 300,
      ec_totalCoinsInNetwork = int (length walletAddresses) * num_or (ecfg_initialBalance config) 300,
      ec_wallets = map (\<lambda>a. (a, \<lparr>w_address = a, w_balance = num_or (ecfg_initialBalance config) 300, w_nonce = 0\<rparr>))
                               walletAddresses\<rparr>"
  by (simp add: newEnhancedBlockchain_def Let_def)

lemma addBlock_fields [simp]:
  "bc_chain (snd (addBlock env s block)) =
     (if validateBlock env s block then bc_chain s @ [block] else bc_chain s)"
  "bc_utxoSet (snd (addBlock env s block)) = bc_utxoSet s"
  "bc_mempool (snd (addBlock env s block)) = bc_mempool s"
  "bc_pendingTransactions (snd (addBlock env s block)) = bc_pendingTransactions s"
  "bc_bloomFilter (snd (addBlock env s block)) = bc_bloomFilter s"
  by (simp_all add: addBlock_def)

lemma updateUTXOSet_fields [simp]:
  "bc_utxoSet (updateUTXOSet s block) =
     foldl (utxoStep (b_baseFeePerGas block)) (bc_utxoSet s) (b_transactions block)"
  "bc_chain (updateUTXOSet s block) = bc_chain s"
  "bc_mempool (updateUTXOSet s block) = bc_mempool s"
  "bc_pendingTransactions (updateUTXOSet s block) = bc_pendingTransactions s"
  "bc_bloomFilter (updateUTXOSet s block) = bc_bloomFilter s"
  by (simp_all add: updateUTXOSet_def)

lemma removeMinedTransactions_fields [simp]:
  "bc_utxoSet (removeMinedTransactions s txs) = bc_utxoSet s"
  "bc_chain (removeMinedTransactions s txs) = bc_chain s"
  "bc_bloomFilter (removeMinedTransactions s txs) = bc_bloomFilter s"
  "bc_mempool (removeMinedTransactions s txs) = fst (foldl removeStep (bc_mempool s, bc_pendingTransactions s) txs)"
  "bc_pendingTransactions (removeMinedTransactions s txs) = snd (foldl removeStep (bc_mempool s, bc_pendingTransactions s) txs)"
  by (simp_all add: removeMinedTransactions_def split: prod.splits)

lemma appliedState_fields [simp]:
  "bc_utxoSet (appliedState env s block) =
     foldl (utxoStep (b_baseFeePerGas block)) (bc_utxoSet s) (b_transactions block)"
  "bc_chain (appliedState env s block) =
     (if validateBlock env s block then bc_chain s @ [block] else bc_chain s)"
  "bc_bloomFilter (appliedState env s block) = bc_bloomFilter s"
  "bc_mempool (appliedState env s block) =
     (if bc_pendingTransactions s \<noteq> []
      then fst (foldl removeStep (bc_mempool s, bc_pendingTransactions s) (b_transactions block))
      else bc_mempool s)"
  "bc_pendingTransactions (appliedState env s block) =
     (if bc_pendingTransactions s \<noteq> []
      then snd (foldl removeStep (bc_mempool s, bc_pendingTransactions s) (b_transactions block))
      else bc_pendingTransactions s)"
  by (simp_all add: appliedState_def Let_def)

lemma appliedState_config [simp]:
  "bc_difficulty (appliedState env s block) = bc_difficulty s"
  "bc_miningReward (appliedState env s block) = bc_miningReward s"
  "bc_maxBlockSize (appliedState env s block) = bc_maxBlockSize s"
  "bc_maxTransactionsPerBlock (appliedState env s block) = bc_maxTransactionsPerBlock s"
  "bc_baseFeePerGas (appliedState env s block) = bc_baseFeePerGas s"
  "bc_targetGasUsed (appliedState env s block) = bc_targetGasUsed s"
  by (simp_all add: appliedState_def addBlock_def updateUTXOSet_def removeMinedTransactions_def
      Let_def split: prod.splits)

lemma ec_removeStep_frame [simp]:
  "ec_balances (ec_removeStep s tx) = ec_balances s"
  "ec_chain (ec_removeStep s tx) = ec_chain s"
  by (simp_all add: ec_removeStep_def)

lemma foldl_ec_removeStep_frame [simp]:
  "ec_balances (foldl ec_removeStep s txs) = ec_balances s"
  "ec_chain (foldl ec_removeStep s txs) = ec_chain s"
  by (induction txs arbitrary: s) simp_all

lemma foldl_ec_removeStep_pending:
  "set (ec_pendingTransactions (foldl ec_removeStep s txs)) \<subseteq> set (ec_pendingTransactions s)"
proof (induction txs arbitrary: s)
  case Nil
  then show ?case by simp
next
  case (Cons tx txs)
  have "set (ec_pendingTransactions (ec_removeStep s tx)) \<subseteq> set (ec_pendingTransactions s)"
    by (auto simp: ec_removeStep_def)
  with Cons.IH [of "ec_removeStep s tx"] show ?case by auto
qed

lemma updateEnhancedFeatures_frame [simp]:
  "ec_balances (updateEnhancedFeatures env s block) = ec_balances s"
  "ec_chain (updateEnhancedFeatures env s block) = ec_chain s"
  "ec_pendingTransactions (updateEnhancedFeatures env s block) = ec_pendingTransactions s"
  by (simp_all add: updateEnhancedFeatures_def Let_def)

lemma updateBalances_frame [simp]:
  "ec_chain (updateBalances s block) = ec_chain s"
  "ec_pendingTransactions (updateBalances s block) = ec_pendingTransactions s"
  by (simp_all add: updateBalances_def Let_def split: prod.splits)

section \<open>Basic facts: the concrete inputs\<close>

lemma envOk_fields [simp]:
  "doubleSha256 envOk = (\<lambda>s. s)" "hashBlockData envOk = hashOk" "byteLength envOk = (\<lambda>tx. 100)"
  by (simp_all add: envOk_def)

lemma hashOk_meets_target: "d \<le> 4 \<Longrightarrow> startsWith (hashOk x) (target d)"
proof -
  assume "d \<le> 4"
  then have "take d (''0000'' @ r) = replicate d CHR ''0''" for r
  proof -
    have "take d (replicate 4 CHR ''0'' @ r) = replicate d CHR ''0''" for r 
      using \<open>d \<le> 4\<close> by (simp add: min_def)
    then show "take d (''0000'' @ r) = replicate d CHR ''0''" for r
      by (simp add: eval_nat_numeral)
  qed
  then show ?thesis by (simp add: startsWith_def hashOk_def target_def)
qed

lemma envFail_never:
  "\<not> startsWith (hashBlockData envFail d) (target 4)"
  by (simp add: envFail_def startsWith_def target_def eval_nat_numeral)

lemma eenvFail_never:
  "\<not> startsWith (hashEnhancedBlockData eenvFail d) (target 2)"
  by (simp add: eenvFail_def startsWith_def target_def eval_nat_numeral)

lemma config0_fields [simp]:
  "cfg_difficulty config0 = 0" "cfg_miningReward config0 = 0" "cfg_maxBlockSize config0 = 0"
  "cfg_maxTransactionsPerBlock config0 = 0" "cfg_baseFeePerGas config0 = 0"
  "cfg_targetGasUsed config0 = 0"
  by (simp_all add: config0_def)

lemma config1_fields [simp]:
  "cfg_difficulty config1 = 0" "cfg_miningReward config1 = 0" "cfg_maxBlockSize config1 = 0"
  "cfg_maxTransactionsPerBlock config1 = 1" "cfg_baseFeePerGas config1 = 0"
  "cfg_targetGasUsed config1 = 0"
  by (simp_all add: config1_def)

lemma candidate_fresh:
  "candidateBlock envOk 1 (newBlockchain envOk 0 config0) 0 =
     \<lparr>b_index = 1, b_previousHash = b_hash (last (bc_chain (newBlockchain envOk 0 config0))),
      b_transactions = [], b_timestamp = 1, b_difficulty = 4, b_baseFeePerGas = 0,
      b_nonce = 0, b_hash = None, b_merkleRoot = None\<rparr>"
  by (simp add: candidateBlock_def selectedTransactions_def newBlock_def calculateMerkleRoot_def
      Let_def config0_def num_or_def nat_or_def)

lemma tx7_fields [simp]:
  "tx_from (tx7 d) = ''A''" "tx_to (tx7 d) = ''B''" "tx_value (tx7 d) = 0" "tx_nonce (tx7 d) = 7"
  "tx_hash (tx7 d) = Some (''h'' @ d)" "tx_signature (tx7 d) = Some ''sig''"
  "tx_gasLimit (tx7 d) = 21000" "tx_maxPriorityFeePerGas (tx7 d) = 0" "tx_maxFeePerGas (tx7 d) = 0"
  by (simp_all add: tx7_def newTransaction_def envOk_def num_or_def truthy_def Let_def)

lemma txAB_fields [simp]:
  "tx_from txAB = ''A''" "tx_to txAB = ''B''" "tx_value txAB = 10" "tx_gasLimit txAB = 1"
  "tx_maxPriorityFeePerGas txAB = 1" "tx_maxFeePerGas txAB = 1"
  "tx_hash txAB = Some ''hp''" "tx_signature txAB = Some ''sig''"
  by (simp_all add: txAB_def newTransaction_def envOk_def num_or_def truthy_def Let_def)

lemma systemAddress_neq [simp]: "''A'' \<noteq> systemAddress" "''B'' \<noteq> systemAddress"
  by (simp_all add: systemAddress_def)

lemma getGasCost_txAB [simp]: "getGasCost txAB 0 = 1"
  by (simp add: getGasCost_def getEffectiveGasPrice_def)

lemma wallets_nonempty [simp]: "wallet1 \<noteq> []" "wallet2 \<noteq> []" "wallet1 \<noteq> wallet2"
  by (simp_all add: wallet1_def wallet2_def)

lemma etx_fields [simp]:
  "et_from (etx n) = wallet1" "et_to (etx n) = wallet2" "et_value (etx n) = 10"
  "et_totalCost (etx n) = 15" "et_nonce (etx n) = num_or n 0" "et_hash (etx n) = Some ''wd''"
  "et_baseFee (etx n) = 2" "et_priorityFee (etx n) = 3" "et_witness (etx n) = None"
  by (simp_all add: etx_def newEnhancedTransaction_def eenvOk_def num_or_def truthy_def Let_def)



lemma addTransaction_fresh_tx7:
  "cfg_baseFeePerGas config = 0 \<Longrightarrow>
   addTransaction envOk (newBlockchain envOk 0 config) (tx7 d) =
     (Returned True,
      (newBlockchain envOk 0 config)
        \<lparr>bc_mempool := [(Some (''h'' @ d), tx7 d)],
         bc_pendingTransactions := [tx7 d],
         bc_bloomFilter := bf_add (hashInt envOk) (bc_bloomFilter (newBlockchain envOk 0 config)) (''h'' @ d)\<rparr>)"
  by (simp add: addTransaction_def validateTransaction_def getBalance_def get_or_zero_def
      getGasCost_def getEffectiveGasPrice_def truthy_def str_of_null_def num_or_def Let_def)

section \<open>Fee arithmetic\<close>









section \<open>The balance map\<close>

text \<open>
  C10: for an address that is not a key of the balance map, \<^verbatim>\<open>getBalance\<close> returns
  \<^verbatim>\<open>0\<close>, in \<^verbatim>\<open>Blockchain\<close> and in \<^verbatim>\<open>EnhancedBlockchain\<close>.
\<close>

theorem C10_getBalance_absent:
  "(map_of (bc_utxoSet s) address = None \<longrightarrow> getBalance s address = 0)
   \<and> (map_of (ec_balances e) address = None \<longrightarrow> ec_getBalance e address = 0)"
  by (simp add: getBalance_def ec_getBalance_def get_or_zero_def)

theorem C10_getBalance_absent_witness:
  "map_of (bc_utxoSet (newBlockchain envOk 0 config0)) ''0xminer'' = None
   \<and> getBalance (newBlockchain envOk 0 config0) ''0xminer'' = 0
   \<and> map_of (ec_balances (newEnhancedBlockchain eenvOk 0 econfig0 [])) ''0xminer'' = None
   \<and> ec_getBalance (newEnhancedBlockchain eenvOk 0 econfig0 []) ''0xminer'' = 0"
proof -
  have a: "map_of (bc_utxoSet (newBlockchain envOk 0 config0)) ''0xminer'' = None" by simp
  have b: "map_of (ec_balances (newEnhancedBlockchain eenvOk 0 econfig0 [])) ''0xminer'' = None"
    by (simp add: newEnhancedBlockchain_empty walletAddresses_def)
  from C10_getBalance_absent [of "newBlockchain envOk 0 config0" "''0xminer''"
         "newEnhancedBlockchain eenvOk 0 econfig0 []"] a b
  show ?thesis by simp
qed

section \<open>The Bloom filter\<close>

lemma fold_set_keeps: "bits h = Some 1 \<Longrightarrow> fold (\<lambda>h bits. bits(h \<mapsto> 1)) hs bits h = Some (1::int)"
  by (induction hs arbitrary: bits) simp_all

lemma fold_set_sets: "h \<in> set hs \<Longrightarrow> fold (\<lambda>h bits. bits(h \<mapsto> 1)) hs bits h = Some (1::int)"
  by (induction hs arbitrary: bits) (auto simp: fold_set_keeps)

lemma allSet_iff: "allSet bits hs \<longleftrightarrow> (\<forall>h \<in> set hs. bits h \<noteq> Some 0)"
  by (induction hs) auto

lemma getHashes_bf_add [simp]: "getHashes hi (bf_add hi bf item) x = getHashes hi bf x"
  by (simp add: getHashes_def bf_add_def Let_def)

lemma bf_add_keeps: "bf_bitArray bf h = Some 1 \<Longrightarrow> bf_bitArray (bf_add hi bf item) h = Some 1"
  by (simp add: bf_add_def Let_def fold_set_keeps)

lemma bf_add_sets: "h \<in> set (getHashes hi bf item) \<Longrightarrow> bf_bitArray (bf_add hi bf item) h = Some 1"
  by (simp add: bf_add_def Let_def fold_set_sets)

lemma foldl_bf_add_keeps:
  "bf_bitArray bf h = Some 1 \<Longrightarrow> bf_bitArray (foldl (bf_add hi) bf others) h = Some 1"
  by (induction others arbitrary: bf) (simp_all add: bf_add_keeps)

lemma getHashes_foldl_bf_add [simp]:
  "getHashes hi (foldl (bf_add hi) bf others) x = getHashes hi bf x"
  by (induction others arbitrary: bf) simp_all

text \<open>
  C5: once an item was passed to \<^verbatim>\<open>add\<close>, \<^verbatim>\<open>mightContain\<close> returns true for it
  after any further sequence of \<^verbatim>\<open>add\<close> calls, on every filter (whatever its size,
  hash count and bit array) and for every hash function.
\<close>

theorem C5_no_false_negatives:
  "mightContain hi (foldl (bf_add hi) (bf_add hi bf item) others) item"
  by (simp add: mightContain_def allSet_iff foldl_bf_add_keeps bf_add_sets)

section \<open>Admission of transactions\<close>




section \<open>Mining that fails\<close>

lemma mineBlock_failure:
  assumes "bc_chain s \<noteq> []"
    and "calculateNextBaseFee (last (bc_chain s)) (bc_targetGasUsed s) = Some nextBaseFee"
    and "fst (mine (hashBlockData env) defaultMaxAttempts (candidateBlock env now s nextBaseFee)) = False"
  shows "mineBlock env now s minerAddress = Some (Returned None, s)"
  using assms by (cases "mine (hashBlockData env) defaultMaxAttempts (candidateBlock env now s nextBaseFee)")
    (simp add: mineBlock_def)

lemma mineBlock_null_unchanged:
  assumes "mineBlock env now s minerAddress = Some (Returned None, s')"
  shows "s' = s"
  using assms
  by (auto simp: mineBlock_def Let_def split: if_splits option.splits prod.splits bool.splits)

lemma ec_mineBlock_failure:
  assumes "ec_chain e \<noteq> []"
    and "fst (eb_mine eenv defaultMaxAttempts (ec_candidateBlock eenv now e minerAddress)) = False"
  shows "ec_mineBlock eenv now e minerAddress = (Returned None, e)"
  using assms by (cases "eb_mine eenv defaultMaxAttempts (ec_candidateBlock eenv now e minerAddress)")
    (simp add: ec_mineBlock_def)

lemma ec_mineBlock_null_unchanged:
  assumes "ec_mineBlock eenv now e minerAddress = (Returned None, e')"
  shows "e' = e"
  using assms
  by (auto simp: ec_mineBlock_def Let_def split: if_splits prod.splits bool.splits)

text \<open>
  C3: when the proof-of-work search of the block that \<^verbatim>\<open>mineBlock\<close> built fails within
  the attempt budget, \<^verbatim>\<open>mineBlock\<close> returns \<^verbatim>\<open>null\<close> and the ledger is the one it was
  called on; and whenever \<^verbatim>\<open>mineBlock\<close> returns \<^verbatim>\<open>null\<close> the ledger is unchanged. Both
  hold for \<^verbatim>\<open>Blockchain\<close> and for \<^verbatim>\<open>EnhancedBlockchain\<close>.
\<close>

theorem C3_failed_mining_changes_nothing:
  "(bc_chain s \<noteq> []
      \<and> calculateNextBaseFee (last (bc_chain s)) (bc_targetGasUsed s) = Some nextBaseFee
      \<and> fst (mine (hashBlockData env) defaultMaxAttempts (candidateBlock env now s nextBaseFee)) = False
      \<longrightarrow> mineBlock env now s minerAddress = Some (Returned None, s))
   \<and> (mineBlock env now s minerAddress = Some (Returned None, s') \<longrightarrow> s' = s)
   \<and> (ec_chain e \<noteq> []
      \<and> fst (eb_mine eenv defaultMaxAttempts (ec_candidateBlock eenv now e minerAddress)) = False
      \<longrightarrow> ec_mineBlock eenv now e minerAddress = (Returned None, e))
   \<and> (ec_mineBlock eenv now e minerAddress = (Returned None, e') \<longrightarrow> e' = e)"
  using mineBlock_failure mineBlock_null_unchanged ec_mineBlock_failure ec_mineBlock_null_unchanged
  by blast

theorem C3_failed_mining_changes_nothing_witness:
  "bc_chain (newBlockchain envFail 0 config0) \<noteq> []
   \<and> calculateNextBaseFee (last (bc_chain (newBlockchain envFail 0 config0)))
        (bc_targetGasUsed (newBlockchain envFail 0 config0)) = Some 0
   \<and> fst (mine (hashBlockData envFail) defaultMaxAttempts
            (candidateBlock envFail 1 (newBlockchain envFail 0 config0) 0)) = False
   \<and> mineBlock envFail 1 (newBlockchain envFail 0 config0) ''M''
       = Some (Returned None, newBlockchain envFail 0 config0)
   \<and> ec_chain (newEnhancedBlockchain eenvFail 0 econfig0 []) \<noteq> []
   \<and> fst (eb_mine eenvFail defaultMaxAttempts
            (ec_candidateBlock eenvFail 1 (newEnhancedBlockchain eenvFail 0 econfig0 []) ''M'')) = False
   \<and> ec_mineBlock eenvFail 1 (newEnhancedBlockchain eenvFail 0 econfig0 []) ''M''
       = (Returned None, newEnhancedBlockchain eenvFail 0 econfig0 [])"
proof -
  let ?s = "newBlockchain envFail 0 config0"
  let ?e = "newEnhancedBlockchain eenvFail 0 econfig0 []"
  have h1: "bc_chain ?s \<noteq> []" by simp
  have h2: "calculateNextBaseFee (last (bc_chain ?s)) (bc_targetGasUsed ?s) = Some 0"
    by (rule nextBaseFee_empty_block) (simp_all add: config0_def num_or_def)
  have d: "b_difficulty (candidateBlock envFail 1 ?s 0) = 4"
    by (simp add: candidateBlock_def Let_def config0_def nat_or_def)
  have h3: "fst (mine (hashBlockData envFail) defaultMaxAttempts (candidateBlock envFail 1 ?s 0)) = False"
    by (rule mine_never) (simp add: d envFail_never)
  have h4: "ec_chain ?e \<noteq> []" by (simp add: newEnhancedBlockchain_empty)
  have ed: "eb_difficulty (ec_candidateBlock eenvFail 1 ?e ''M'') = 2"
    by (simp add: ec_candidateBlock_def newEnhancedBlock_def calculateMerkleRoots_def
        processTransactions_def newEnhancedBlockchain_empty Let_def econfig0_def nat_or_def)
  have h5: "fst (eb_mine eenvFail defaultMaxAttempts (ec_candidateBlock eenvFail 1 ?e ''M'')) = False"
    by (rule eb_mine_never) (simp add: ed eenvFail_never)
  from C3_failed_mining_changes_nothing [of ?s 0 envFail 1 "''M''" ?s ?e eenvFail ?e] h1 h2 h3 h4 h5
  show ?thesis by simp
qed

section \<open>Mining that succeeds, in the basic ledger\<close>

lemma mineBlock_success:
  assumes "bc_chain s \<noteq> []"
    and "calculateNextBaseFee (last (bc_chain s)) (bc_targetGasUsed s) = Some nextBaseFee"
    and "mine (hashBlockData env) defaultMaxAttempts (candidateBlock env now s nextBaseFee)
           = (True, minedBlock)"
  shows "mineBlock env now s minerAddress =
           Some (Returned (Some (block_addTransaction (doubleSha256 env) minedBlock
                                    (rewardTransaction env s minerAddress))),
                 appliedState env s (block_addTransaction (doubleSha256 env) minedBlock
                                    (rewardTransaction env s minerAddress)))"
  using assms by (simp add: mineBlock_def appliedState_def Let_def)



section \<open>Block size\<close>

text \<open>C6, the part that holds: an \<^verbatim>\<open>EnhancedBlock\<close> holds at most four transactions after
  construction, after mining, and after \<^verbatim>\<open>addTransaction\<close> on a block that held at
  most four.\<close>

lemma newEnhancedBlock_at_most_four:
  "length (eb_transactions (newEnhancedBlock env now params)) \<le> 4"
  by simp

lemma eb_mine_at_most_four:
  "length (eb_transactions (snd (eb_mine env n (newEnhancedBlock env now params)))) \<le> 4"
  by simp

lemma eb_addTransaction_at_most_four:
  "length (eb_transactions b) \<le> 4 \<Longrightarrow>
   length (eb_transactions (snd (eb_addTransaction env b transaction))) \<le> 4"
  by (simp add: eb_addTransaction_def)

lemma selectLoop_length:
  "int (length (selectLoop env s txs selected totalSize totalGas))
     \<le> max (int (length selected)) (bc_maxTransactionsPerBlock s)"
proof (induction txs arbitrary: selected totalSize totalGas)
  case Nil
  then show ?case by simp
next
  case (Cons tx txs)
  show ?case
  proof (cases "totalSize + byteLength env tx \<le> bc_maxBlockSize s
            \<and> totalGas + tx_gasLimit tx \<le> bc_targetGasUsed s
            \<and> int (length selected) < bc_maxTransactionsPerBlock s")
    case True
    then have "int (length (selected @ [tx])) \<le> bc_maxTransactionsPerBlock s" by simp
    with Cons.IH [of "selected @ [tx]" "totalSize + byteLength env tx" "totalGas + tx_gasLimit tx"] True
    show ?thesis by (simp add: Let_def)
  next
    case False
    with Cons.IH [of selected totalSize totalGas] show ?thesis by (auto simp: Let_def)
  qed
qed

lemma selectedTransactions_length:
  "int (length (selectedTransactions env s)) \<le> max 0 (bc_maxTransactionsPerBlock s)"
  using selectLoop_length [of env s _ "[]" 0 0]
  by (simp add: selectedTransactions_def selectTransactionsForBlock_def Let_def)

text \<open>
  C6 at a failing input: a basic ledger configured with \<^verbatim>\<open>maxTransactionsPerBlock = 1\<close>
  and one pending transaction. \<^verbatim>\<open>mineBlock\<close> selects that transaction, mines the block
  and then appends the reward transaction through \<^verbatim>\<open>Block.addTransaction\<close>, which
  checks no limit: the returned block holds two transactions.
\<close>

theorem C6_mined_block_exceeds_maximum:
  "\<exists>block s'.
      mineBlock envOk 1 (snd (addTransaction envOk (newBlockchain envOk 0 config1) (tx7 ''x''))) ''M''
        = Some (Returned (Some block), s')
    \<and> bc_maxTransactionsPerBlock (snd (addTransaction envOk (newBlockchain envOk 0 config1) (tx7 ''x''))) = 1
    \<and> length (b_transactions block) = 2"
proof -
  let ?fresh = "newBlockchain envOk 0 config1"
  let ?s = "snd (addTransaction envOk ?fresh (tx7 ''x''))"
  have s: "?s = ?fresh\<lparr>bc_mempool := [(Some ''hx'', tx7 ''x'')], bc_pendingTransactions := [tx7 ''x''],
                     bc_bloomFilter := bf_add (hashInt envOk) (bc_bloomFilter ?fresh) ''hx''\<rparr>"
    by (simp add: addTransaction_fresh_tx7)
  have mx: "bc_maxTransactionsPerBlock ?s = 1"
    by (simp add: s num_or_def)
  have sel: "selectedTransactions envOk ?s = [tx7 ''x'']"
    by (simp add: s selectedTransactions_def selectTransactionsForBlock_def Let_def num_or_def)
  let ?cand = "candidateBlock envOk 1 ?s 0"
  have d: "b_difficulty ?cand = 4"
    by (simp add: candidateBlock_def s Let_def nat_or_def)
  have t: "b_transactions ?cand = [tx7 ''x'']"
    by (simp add: candidateBlock_def sel Let_def)
  have h1: "bc_chain ?s \<noteq> []" by (simp add: s)
  have h2: "calculateNextBaseFee (last (bc_chain ?s)) (bc_targetGasUsed ?s) = Some 0"
    by (rule nextBaseFee_empty_block) (simp_all add: s num_or_def)
  have h3: "mine (hashBlockData envOk) defaultMaxAttempts ?cand
              = (True, ?cand\<lparr>b_hash := Some (hashOk (getBlockData ?cand))\<rparr>)"
    by (simp add: mine_first_attempt hashOk_meets_target d)
  from mineBlock_success [OF h1 h2 h3, of "''M''"] mx t show ?thesis
    by (intro exI conjI) (assumption, simp_all)
qed

section \<open>Conservation of value\<close>

lemma totalBalance_update:
  "totalBalance (AList.update k v m) = totalBalance m - get_or_zero m k + v"
  by (induction m) (auto simp: totalBalance_def get_or_zero_map_of)

lemma totalBalance_credit:
  "totalBalance (AList.update k (get_or_zero m k + d) m) = totalBalance m + d"
  by (simp add: totalBalance_update)

lemma totalBalance_debit:
  "totalBalance (AList.update k (get_or_zero m k - d) m) = totalBalance m - d"
  by (simp add: totalBalance_update)

lemma totalBalance_balanceStep:
  "totalBalance (balanceStep m tx) = totalBalance m - et_totalCost tx + et_value tx"
  by (simp add: balanceStep_def Let_def totalBalance_credit totalBalance_debit)

lemma totalBalance_foldl_balanceStep:
  "totalBalance (foldl balanceStep m txs) =
     totalBalance m - sum_list (map et_totalCost txs) + sum_list (map et_value txs)"
  by (induction txs arbitrary: m) (simp_all add: totalBalance_balanceStep)

lemma fst_foldl_walletStep:
  "fst (foldl walletStep (m, w) txs) = foldl balanceStep m txs"
  by (induction txs arbitrary: m w) (simp_all add: walletStep_def Let_def)

lemma ec_balances_updateBalances:
  "ec_balances (updateBalances s block) =
     (let balances = foldl balanceStep (ec_balances s) (eb_transactions block)
      in AList.update (eb_minerAddress block)
           (get_or_zero balances (eb_minerAddress block)
              + (eb_totalPriorityFees block + eb_blockReward block)) balances)"
proof -
  obtain m w where f: "foldl walletStep (ec_balances s, ec_wallets s) (eb_transactions block) = (m, w)"
    by (cases "foldl walletStep (ec_balances s, ec_wallets s) (eb_transactions block)")
  then have "m = foldl balanceStep (ec_balances s) (eb_transactions block)"
    using fst_foldl_walletStep [of "ec_balances s" "ec_wallets s" "eb_transactions block"] by simp
  with f show ?thesis by (simp add: updateBalances_def getFees_def Let_def)
qed

lemma totalBalance_updateBalances:
  "totalBalance (ec_balances (updateBalances s block)) =
     totalBalance (ec_balances s)
       - sum_list (map et_totalCost (eb_transactions block))
       + sum_list (map et_value (eb_transactions block))
       + eb_totalPriorityFees block + eb_blockReward block"
  by (simp add: ec_balances_updateBalances Let_def totalBalance_credit totalBalance_foldl_balanceStep)

text \<open>What a successful \<^verbatim>\<open>mineBlock\<close> of the enhanced ledger returns and leaves behind.\<close>

lemma ec_mineBlock_success:
  assumes "ec_mineBlock env now s minerAddress = (Returned (Some block), s')"
  shows "ec_chain s \<noteq> []"
    and "block = snd (eb_mine env defaultMaxAttempts (ec_candidateBlock env now s minerAddress))"
    and "ec_chain s' = ec_chain s @ [block]"
    and "ec_balances s' = ec_balances (updateBalances s block)"
    and "set (ec_pendingTransactions s') \<subseteq> set (ec_pendingTransactions s)"
proof -
  from assms show ne: "ec_chain s \<noteq> []"
    by (auto simp: ec_mineBlock_def Let_def split: if_splits)
  obtain ok mined where m: "eb_mine env defaultMaxAttempts (ec_candidateBlock env now s minerAddress) = (ok, mined)"
    by (cases "eb_mine env defaultMaxAttempts (ec_candidateBlock env now s minerAddress)")
  with assms ne have ok: "ok" and b: "block = mined"
    by (auto simp: ec_mineBlock_def Let_def split: if_splits bool.splits)
  from b m show "block = snd (eb_mine env defaultMaxAttempts (ec_candidateBlock env now s minerAddress))"
    by simp
  from assms ne m ok b
  have s': "s' = updateEnhancedFeatures env
                  (foldl ec_removeStep (updateBalances (s\<lparr>ec_chain := ec_chain s @ [block]\<rparr>) block)
                     (take (ec_maxTransactionsPerBlock s) (ec_pendingTransactions s))) block"
    by (auto simp: ec_mineBlock_def Let_def)
  show "ec_chain s' = ec_chain s @ [block]" by (simp add: s')
  show "ec_balances s' = ec_balances (updateBalances s block)"
    by (simp add: s' ec_balances_updateBalances)
  show "set (ec_pendingTransactions s') \<subseteq> set (ec_pendingTransactions s)"
    using foldl_ec_removeStep_pending
      [of "updateBalances (s\<lparr>ec_chain := ec_chain s @ [block]\<rparr>) block"
          "take (ec_maxTransactionsPerBlock s) (ec_pendingTransactions s)"]
    by (simp add: s')
qed

text \<open>C1 on the enhanced ledger, for one block: a mined block changes the sum of all
  balances by its block reward minus its burned base fees.\<close>

lemma ec_mineBlock_conserves:
  assumes "ec_mineBlock env now s minerAddress = (Returned (Some block), s')"
    and "\<forall>tx \<in> set (ec_pendingTransactions s). wellFormed tx"
  shows "totalBalance (ec_balances s')
           = totalBalance (ec_balances s) + eb_blockReward block - eb_totalBaseFees block"
    and "eb_blockReward block = 50"
    and "eb_totalBaseFees block = sum_list (map et_baseFee (eb_transactions block))"
proof -
  note r = ec_mineBlock_success [OF assms(1)]
  let ?txs = "take 4 (take (ec_maxTransactionsPerBlock s) (ec_pendingTransactions s))"
  have txs: "eb_transactions block = ?txs" by (simp add: r(2))
  have "set ?txs \<subseteq> set (ec_pendingTransactions s)"
    by (meson set_take_subset subset_trans)
  with assms(2) have wf: "\<forall>tx \<in> set ?txs. wellFormed tx" by blast
  have cost: "sum_list (map et_totalCost txs)
      = sum_list (map et_value txs) + sum_list (map et_baseFee txs) + sum_list (map et_priorityFee txs)"
    if "\<forall>tx \<in> set txs. wellFormed tx" for txs
    using that by (induction txs) (simp_all add: wellFormed_def)
  show rew: "eb_blockReward block = 50" by (simp add: r(2))
  show bf: "eb_totalBaseFees block = sum_list (map et_baseFee (eb_transactions block))"
    by (simp add: r(2))
  have pf: "eb_totalPriorityFees block = sum_list (map et_priorityFee ?txs)" by (simp add: r(2))
  show "totalBalance (ec_balances s')
           = totalBalance (ec_balances s) + eb_blockReward block - eb_totalBaseFees block"
    using cost [OF wf] by (simp add: r(4) totalBalance_updateBalances txs bf pf)
qed

lemma ec_mineBlock_cases:
  obtains (threw) "ec_chain s = []" "ec_mineBlock env now s a = (Threw TypeError, s)"
  | (failed) "ec_mineBlock env now s a = (Returned None, s)"
  | (mined) block s' where "ec_mineBlock env now s a = (Returned (Some block), s')"
proof (cases "ec_chain s = []")
  case True
  then have "ec_mineBlock env now s a = (Threw TypeError, s)"
    by (simp add: ec_mineBlock_def Let_def)
  with True show ?thesis by (rule threw)
next
  case False
  obtain ok mined where m: "eb_mine env defaultMaxAttempts (ec_candidateBlock env now s a) = (ok, mined)"
    by (cases "eb_mine env defaultMaxAttempts (ec_candidateBlock env now s a)")
  show ?thesis
  proof (cases ok)
    case True
    with False m obtain s' where "ec_mineBlock env now s a = (Returned (Some mined), s')"
      by (simp add: ec_mineBlock_def Let_def)
    then show ?thesis by (rule mined)
  next
    case False
    with \<open>ec_chain s \<noteq> []\<close> m have "ec_mineBlock env now s a = (Returned None, s)"
      by (simp add: ec_mineBlock_def Let_def)
    then show ?thesis by (rule failed)
  qed
qed

lemma conserving_addTransaction:
  assumes "conserving i s" and "wellFormed tx"
  shows "conserving i (snd (ec_addTransaction env s tx))"
  using assms
  by (auto simp: conserving_def ec_addTransaction_def Let_def wellFormed_def list_all_iff)

lemma netIssuance_append:
  "chain \<noteq> [] \<Longrightarrow>
   netIssuance (chain @ [block]) = netIssuance chain + eb_blockReward block - eb_totalBaseFees block"
  by (cases chain) (simp_all add: netIssuance_def)

lemma conserving_mineBlock:
  assumes "conserving i s"
  shows "conserving i (snd (ec_mineBlock env now s a))"
proof (cases rule: ec_mineBlock_cases [of s env now a])
  case threw
  with assms show ?thesis by (simp add: conserving_def)
next
  case failed
  with assms show ?thesis by simp
next
  case (mined block s')
  from assms have wf: "\<forall>tx \<in> set (ec_pendingTransactions s). wellFormed tx"
    by (simp add: conserving_def list_all_iff)
  note r = ec_mineBlock_success [OF mined]
  from ec_mineBlock_conserves(1) [OF mined wf] assms r(1,3,5) wf
  have "conserving i s'"
    by (auto simp: conserving_def netIssuance_append list_all_iff)
  with mined show ?thesis by simp
qed

lemma conserving_run:
  assumes "conserving i s" and "list_all callWellFormed calls"
  shows "conserving i (ec_run env s calls)"
  using assms unfolding ec_run_def
proof (induction calls arbitrary: s)
  case Nil
  then show ?case by simp
next
  case (Cons c calls)
  have "conserving i (ec_call env s c)"
  proof (cases c)
    case (Submit tx)
    with Cons.prems show ?thesis by (simp add: conserving_addTransaction)
  next
    case (MineBlock a now)
    with Cons.prems show ?thesis by (simp add: conserving_mineBlock)
  qed
  with Cons show ?case by simp
qed

lemma conserving_loadStep:
  "conserving i s \<Longrightarrow> conserving i (loadStep env s txData)"
  unfolding loadStep_def Let_def
  by (rule conserving_addTransaction)
    (simp_all add: wellFormed_def newEnhancedTransaction_def Let_def split: prod.splits)

lemma conserving_foldl_loadStep:
  "conserving i s \<Longrightarrow> conserving i (foldl (loadStep env) s seed)"
  by (induction seed arbitrary: s) (simp_all add: conserving_loadStep)

lemma totalBalance_initial:
  "totalBalance (map (\<lambda>a. (a, b)) walletAddresses) = 10 * b"
  by (simp add: totalBalance_def walletAddresses_def)

lemma conserving_fresh:
  "conserving (10 * num_or (ecfg_initialBalance config) 300) (newEnhancedBlockchain env now config seed)"
  unfolding newEnhancedBlockchain_def Let_def
  by (rule conserving_foldl_loadStep) (simp add: conserving_def netIssuance_def totalBalance_initial)

text \<open>
  C1 on the enhanced ledger: after any sequence of \<^verbatim>\<open>addTransaction\<close> and
  \<^verbatim>\<open>mineBlock\<close> calls on a freshly constructed \<^verbatim>\<open>EnhancedBlockchain\<close>, the sum of all
  balances is the initial supply (ten wallets at the initial balance) plus the block
  rewards minus the burned base fees of the blocks mined since.
\<close>

lemma ec_run_conservation:
  assumes "list_all callWellFormed calls"
  shows "totalBalance (ec_balances (ec_run env (newEnhancedBlockchain env now config seed) calls))
           = 10 * num_or (ecfg_initialBalance config) 300
             + netIssuance (ec_chain (ec_run env (newEnhancedBlockchain env now config seed) calls))"
proof -
  have "conserving (10 * num_or (ecfg_initialBalance config) 300)
          (ec_run env (newEnhancedBlockchain env now config seed) calls)"
    using conserving_fresh assms by (rule conserving_run)
  then show ?thesis by (simp add: conserving_def)
qed

text \<open>
  C1 at a failing input, on the basic ledger with base fee \<^verbatim>\<open>0\<close>: \<^verbatim>\<open>A\<close> mines an
  empty block and holds the reward \<^verbatim>\<open>50\<close>; \<^verbatim>\<open>A\<close> sends \<^verbatim>\<open>10\<close> to \<^verbatim>\<open>B\<close> at a
  gas cost of \<^verbatim>\<open>1\<close>, all of it priority fee; \<^verbatim>\<open>M\<close> mines the block. Two rewards of
  \<^verbatim>\<open>50\<close> were issued and the base fee of both blocks is \<^verbatim>\<open>0\<close>, so nothing was
  burned as base fee, yet the balances add up to \<^verbatim>\<open>99\<close>: \<^verbatim>\<open>_updateUTXOSet\<close> debits
  the sender the whole gas cost and credits it to nobody.
\<close>

theorem C1_basic_ledger_destroys_priority_fees:
  "\<exists>b1 s1 b2 s2.
      mineBlock envOk 1 (newBlockchain envOk 0 config0) ''A'' = Some (Returned (Some b1), s1)
    \<and> addTransaction envOk s1 txAB
        = (Returned True, snd (addTransaction envOk s1 txAB))
    \<and> mineBlock envOk 2 (snd (addTransaction envOk s1 txAB)) ''M'' = Some (Returned (Some b2), s2)
    \<and> bc_utxoSet (newBlockchain envOk 0 config0) = []
    \<and> b_transactions b1 = [rewardTransaction envOk (newBlockchain envOk 0 config0) ''A'']
    \<and> b_transactions b2 = [txAB, rewardTransaction envOk s1 ''M'']
    \<and> bc_miningReward (newBlockchain envOk 0 config0) = 50 \<and> bc_miningReward s1 = 50
    \<and> b_baseFeePerGas b1 = 0 \<and> b_baseFeePerGas b2 = 0
    \<and> bc_utxoSet s1 = [(''A'', 50)]
    \<and> bc_utxoSet s2 = [(''A'', 39), (''B'', 10), (''M'', 50)]
    \<and> sum_list (map snd (bc_utxoSet s2)) = 99"
proof -
  define fresh where "fresh = newBlockchain envOk 0 config0"
  define c1 where "c1 = candidateBlock envOk 1 fresh 0"
  define m1 where "m1 = c1\<lparr>b_hash := Some (hashOk (getBlockData c1))\<rparr>"
  define b1 where "b1 = block_addTransaction (doubleSha256 envOk) m1 (rewardTransaction envOk fresh ''A'')"
  define s1 where "s1 = appliedState envOk fresh b1"
  have c1: "c1 = \<lparr>b_index = 1, b_previousHash = b_hash (last (bc_chain fresh)),
      b_transactions = [], b_timestamp = 1, b_difficulty = 4, b_baseFeePerGas = 0,
      b_nonce = 0, b_hash = None, b_merkleRoot = None\<rparr>"
    unfolding c1_def fresh_def by (rule candidate_fresh)
  have a1: "bc_chain fresh \<noteq> []" by (simp add: fresh_def)
  have a2: "calculateNextBaseFee (last (bc_chain fresh)) (bc_targetGasUsed fresh) = Some 0"
    by (rule nextBaseFee_empty_block) (simp_all add: fresh_def num_or_def)
  have a3: "mine (hashBlockData envOk) defaultMaxAttempts (candidateBlock envOk 1 fresh 0) = (True, m1)"
    unfolding m1_def c1_def [symmetric] by (simp add: mine_first_attempt hashOk_meets_target c1)
  have r1: "mineBlock envOk 1 fresh ''A'' = Some (Returned (Some b1), s1)"
    unfolding b1_def s1_def using a1 a2 a3 by (rule mineBlock_success)
  have t1: "b_transactions b1 = [rewardTransaction envOk fresh ''A'']"
    by (simp add: b1_def m1_def c1)
  have f1: "b_baseFeePerGas b1 = 0" by (simp add: b1_def m1_def c1)
  have nv: "\<not> validateBlock envOk fresh b1"
    by (simp add: validateBlock_def verifyHash_def getBlockData_def b1_def m1_def c1 hashOk_def
        leafOf_def Let_def)
  have rw1: "bc_miningReward fresh = 50" by (simp add: fresh_def num_or_def)
  have u0: "bc_utxoSet fresh = []" by (simp add: fresh_def)
  have u1: "bc_utxoSet s1 = [(''A'', 50)]"
    by (simp add: s1_def t1 f1 u0 rw1 utxoStep_def get_or_zero_def num_or_def Let_def)
  have p1: "bc_pendingTransactions s1 = []" "bc_mempool s1 = []"
    by (simp_all add: s1_def fresh_def)
  have c1': "bc_chain s1 = bc_chain fresh" using nv by (simp add: s1_def)
  have cf1: "bc_baseFeePerGas s1 = 0" "bc_miningReward s1 = 50" "bc_difficulty s1 = 4"
    "bc_targetGasUsed s1 = 15000000" "bc_maxBlockSize s1 = 1000000"
    "bc_maxTransactionsPerBlock s1 = 1000"
    by (simp_all add: s1_def fresh_def num_or_def nat_or_def)
  define s1' where "s1' = s1\<lparr>bc_mempool := [(Some ''hp'', txAB)], bc_pendingTransactions := [txAB],
            bc_bloomFilter := bf_add (hashInt envOk) (bc_bloomFilter s1) ''hp''\<rparr>"
  have ad: "addTransaction envOk s1 txAB = (Returned True, s1')"
    by (simp add: addTransaction_def validateTransaction_def getBalance_def s1'_def u1 p1 cf1
        get_or_zero_def truthy_def str_of_null_def num_or_def Let_def)
  have sel: "selectedTransactions envOk s1' = [txAB]"
    by (simp add: s1'_def selectedTransactions_def selectTransactionsForBlock_def cf1 Let_def)
  define c2 where "c2 = candidateBlock envOk 2 s1' 0"
  define m2 where "m2 = c2\<lparr>b_hash := Some (hashOk (getBlockData c2))\<rparr>"
  define b2 where "b2 = block_addTransaction (doubleSha256 envOk) m2 (rewardTransaction envOk s1' ''M'')"
  define s2 where "s2 = appliedState envOk s1' b2"
  have d2: "b_difficulty c2 = 4" by (simp add: c2_def candidateBlock_def s1'_def cf1 Let_def nat_or_def)
  have t2: "b_transactions c2 = [txAB]" by (simp add: c2_def candidateBlock_def sel Let_def)
  have f2: "b_baseFeePerGas c2 = 0" by (simp add: c2_def candidateBlock_def Let_def num_or_def)
  have e1: "bc_chain s1' \<noteq> []" by (simp add: s1'_def c1' a1)
  have e2: "calculateNextBaseFee (last (bc_chain s1')) (bc_targetGasUsed s1') = Some 0"
    by (rule nextBaseFee_empty_block) (simp_all add: s1'_def c1' cf1 fresh_def num_or_def)
  have e3: "mine (hashBlockData envOk) defaultMaxAttempts (candidateBlock envOk 2 s1' 0) = (True, m2)"
    unfolding m2_def c2_def [symmetric] by (simp add: mine_first_attempt hashOk_meets_target d2)
  have r2: "mineBlock envOk 2 s1' ''M'' = Some (Returned (Some b2), s2)"
    unfolding b2_def s2_def using e1 e2 e3 by (rule mineBlock_success)
  have rw: "rewardTransaction envOk s1' ''M'' = rewardTransaction envOk s1 ''M''"
    by (simp add: rewardTransaction_def s1'_def)
  have tb2: "b_transactions b2 = [txAB, rewardTransaction envOk s1 ''M'']"
    by (simp add: b2_def m2_def t2 rw)
  have fb2: "b_baseFeePerGas b2 = 0" by (simp add: b2_def m2_def f2)
  have u1': "bc_utxoSet s1' = [(''A'', 50)]" by (simp add: s1'_def u1)
  have u2: "bc_utxoSet s2 = [(''A'', 39), (''B'', 10), (''M'', 50)]"
    by (simp add: s2_def tb2 fb2 u1' cf1 utxoStep_def get_or_zero_def num_or_def Let_def)
  have "mineBlock envOk 1 fresh ''A'' = Some (Returned (Some b1), s1)
    \<and> addTransaction envOk s1 txAB = (Returned True, snd (addTransaction envOk s1 txAB))
    \<and> mineBlock envOk 2 (snd (addTransaction envOk s1 txAB)) ''M'' = Some (Returned (Some b2), s2)
    \<and> bc_utxoSet fresh = []
    \<and> b_transactions b1 = [rewardTransaction envOk fresh ''A'']
    \<and> b_transactions b2 = [txAB, rewardTransaction envOk s1 ''M'']
    \<and> bc_miningReward fresh = 50 \<and> bc_miningReward s1 = 50
    \<and> b_baseFeePerGas b1 = 0 \<and> b_baseFeePerGas b2 = 0
    \<and> bc_utxoSet s1 = [(''A'', 50)]
    \<and> bc_utxoSet s2 = [(''A'', 39), (''B'', 10), (''M'', 50)]
    \<and> sum_list (map snd (bc_utxoSet s2)) = 99"
    using r1 ad r2 u0 t1 tb2 rw1 cf1(2) f1 fb2 u1 u2 by simp
  then show ?thesis unfolding fresh_def by blast
qed

section \<open>Merkle proofs\<close>

text \<open>C2, the second half, which holds: on a hash that is not a leaf of the tree
  \<^verbatim>\<open>getProof\<close> returns \<^verbatim>\<open>null\<close>.\<close>

lemma getProof_not_found:
  "x \<notin> set (map (leafOf H) L) \<Longrightarrow> getProof (newMerkleTree H L) x = None"
proof -
  assume "x \<notin> set (map (leafOf H) L)"
  then have "findIndex (\<lambda>h. h = x) (map (leafOf H) L) = None"
    unfolding findIndex_None_iff by blast
  then show ?thesis
    by (simp add: getProof_def newMerkleTree_def buildTree_def Let_def)
qed

lemma getProof_found:
  "x \<in> set (map (leafOf H) L) \<Longrightarrow> getProof (newMerkleTree H L) x \<noteq> None"
proof -
  assume x: "x \<in> set (map (leafOf H) L)"
  then have "L \<noteq> []" by auto
  moreover from x have "findIndex (\<lambda>h. h = x) (map (leafOf H) L) \<noteq> None"
    unfolding findIndex_None_iff by blast
  ultimately show ?thesis
    by (auto simp: getProof_def newMerkleTree_def buildTree_def Let_def split: option.splits)
qed

text \<open>
  C2 at a failing input: the tree of the three leaves \<^verbatim>\<open>a\<close>, \<^verbatim>\<open>b\<close>, \<^verbatim>\<open>c\<close> and the
  leaf \<^verbatim>\<open>c\<close>. \<^verbatim>\<open>_buildTree\<close> pairs the unpaired \<^verbatim>\<open>c\<close> with itself, but
  \<^verbatim>\<open>getProof\<close> reads the sibling at index \<^verbatim>\<open>3\<close>, past the end of the level, and
  records \<^verbatim>\<open>undefined\<close>. \<^verbatim>\<open>verifyProof\<close> then hashes the text \<^verbatim>\<open>cundefined\<close> where
  the tree hashed \<^verbatim>\<open>cc\<close>: it returns true only if the two hashes collide, and false
  for the identity in place of the hash (or any injective function).
\<close>

theorem C2_proof_of_unpaired_leaf_fails:
  "getProof (newMerkleTree H [Some ''a'', Some ''b'', Some ''c'']) ''c''
     = Some \<lparr>path = [False, True], siblings = [None, Some (H ''ab'')]\<rparr>
   \<and> getRoot (newMerkleTree H [Some ''a'', Some ''b'', Some ''c''])
     = Some (H (H ''ab'' @ H ''cc''))
   \<and> verifyProof H ''c'' (getProof (newMerkleTree H [Some ''a'', Some ''b'', Some ''c'']) ''c'')
        (getRoot (newMerkleTree H [Some ''a'', Some ''b'', Some ''c'']))
     = Returned (H (H ''ab'' @ H ''cundefined'') = H (H ''ab'' @ H ''cc''))
   \<and> verifyProof (\<lambda>s. s) ''c''
        (getProof (newMerkleTree (\<lambda>s. s) [Some ''a'', Some ''b'', Some ''c'']) ''c'')
        (getRoot (newMerkleTree (\<lambda>s. s) [Some ''a'', Some ''b'', Some ''c'']))
     = Returned False"
proof -
  have p: "getProof (newMerkleTree H [Some ''a'', Some ''b'', Some ''c'']) ''c''
     = Some \<lparr>path = [False, True], siblings = [None, Some (H ''ab'')]\<rparr>" for H
    by (simp add: getProof_def tree_of_three js_nth_def Let_def)
  have r: "getRoot (newMerkleTree H [Some ''a'', Some ''b'', Some ''c''])
     = Some (H (H ''ab'' @ H ''cc''))" for H
    using root_of_three [of H "''a''" "''b''" "''c''"] by simp
  have v: "verifyProof H ''c'' (getProof (newMerkleTree H [Some ''a'', Some ''b'', Some ''c'']) ''c'')
        (getRoot (newMerkleTree H [Some ''a'', Some ''b'', Some ''c'']))
     = Returned (H (H ''ab'' @ H ''cundefined'') = H (H ''ab'' @ H ''cc''))" for H
    by (simp add: p r verifyProof_def js_nth_def str_of_undefined_def)
  show ?thesis using p [of H] r [of H] v [of H] v [of "\<lambda>s. s"] by simp
qed

lemma unpaired_leaf_fails_for_injective_hash:
  "inj H \<Longrightarrow>
   verifyProof H ''c'' (getProof (newMerkleTree H [Some ''a'', Some ''b'', Some ''c'']) ''c'')
        (getRoot (newMerkleTree H [Some ''a'', Some ''b'', Some ''c''])) = Returned False"
proof -
  assume "inj H"
  then have "H u = H v \<longleftrightarrow> u = v" for u v by (auto dest: injD)
  then show ?thesis
    by (simp add: getProof_def tree_of_three root_of_three [of H "''a''" "''b''" "''c''", simplified]
        js_nth_def Let_def verifyProof_def str_of_undefined_def)
qed

lemma verifyLoop_foldl:
  "verifyLoop H (map fst steps) (pre @ map snd steps) (length pre) cur = foldl (combine H) cur steps"
proof (induction steps arbitrary: pre cur)
  case Nil
  then show ?case by simp
next
  case (Cons s steps)
  have "js_nth (pre @ snd s # map snd steps) (length pre) = Some (snd s)"
    by (simp add: js_nth_def)
  moreover have "verifyLoop H (map fst steps) ((pre @ [snd s]) @ map snd steps) (length (pre @ [snd s])) c
                 = foldl (combine H) c steps" for c
    by (rule Cons.IH)
  moreover have "(if fst s then H (str_of_undefined (snd s) @ cur)
                  else H (cur @ str_of_undefined (snd s))) = combine H cur s"
    by (simp add: combine_def)
  ultimately show ?case by (simp add: Let_def split del: if_split)
qed

lemma nextLevel_nth:
  "j < length (nextLevel H xs) \<Longrightarrow>
   nextLevel H xs ! j =
     (if 2 * j + 1 < length xs then H (xs ! (2 * j) @ xs ! (2 * j + 1))
      else H (xs ! (2 * j) @ xs ! (2 * j)))"
proof (induction H xs arbitrary: j rule: nextLevel.induct)
  case (1 H)
  then show ?case by simp
next
  case (2 H left)
  then show ?case by simp
next
  case (3 H left right rest)
  show ?case
  proof (cases j)
    case 0
    then show ?thesis by simp
  next
    case (Suc k)
    with "3.prems" have "k < length (nextLevel H rest)" by simp
    from "3.IH" [OF this] Suc show ?thesis by simp
  qed
qed

lemma climb:
  "i < length level \<Longrightarrow> paired (length level) i \<Longrightarrow>
   foldl (combine H) (level ! i) (proofSteps (level # levelsAbove H level) i)
     = hd (last (level # levelsAbove H level))
   \<and> length (last (level # levelsAbove H level)) = 1"
proof (induction H level arbitrary: i rule: levelsAbove.induct)
  case (1 H level)
  show ?case
  proof (cases "length level > 1")
    case False
    with "1.prems" have l: "length level = 1" "i = 0" by auto
    then have "levelsAbove H level = []" by (simp add: levelsAbove_top)
    with l show ?thesis by (cases level; simp)
  next
    case True
    let ?up = "nextLevel H level"
    have un: "levelsAbove H level = ?up # levelsAbove H ?up"
      using True by (rule levelsAbove_unfold)
    from "1.prems"(2) True
    have sib: "i mod 2 = 1 \<or> i + 1 < length level" and up: "paired (length ?up) (i div 2)"
      by (simp_all add: paired.simps [of "length level" i] length_nextLevel)
    have lt: "i div 2 < length ?up" using "1.prems"(1) by (simp add: length_nextLevel)
    have step: "combine H (level ! i)
        (i mod 2 = 1, js_nth level (if i mod 2 = 1 then i - 1 else i + 1)) = ?up ! (i div 2)"
    proof (cases "i mod 2 = 1")
      case odd: True
      define j where "j = i div 2"
      from odd have i: "i = 2 * j + 1" unfolding j_def by presburger
      with "1.prems"(1) have r: "2 * j + 1 < length level" "2 * j < length level" by simp_all
      have "?up ! j = H (level ! (2 * j) @ level ! (2 * j + 1))"
        using nextLevel_nth [OF lt] r by (simp add: j_def [symmetric])
      moreover have "combine H (level ! (2 * j + 1)) (True, js_nth level (2 * j))
                       = H (level ! (2 * j) @ level ! (2 * j + 1))"
        using r by (simp add: combine_def js_nth_def str_of_undefined_def)
      ultimately show ?thesis using odd by (simp add: i)
    next
      case even: False
      define j where "j = i div 2"
      from even have i: "i = 2 * j" unfolding j_def by presburger
      with sib even have r: "2 * j + 1 < length level" by simp
      have "?up ! j = H (level ! (2 * j) @ level ! (2 * j + 1))"
        using nextLevel_nth [OF lt] r by (simp add: j_def [symmetric])
      moreover have "combine H (level ! (2 * j)) (False, js_nth level (2 * j + 1))
                       = H (level ! (2 * j) @ level ! (2 * j + 1))"
        using r by (simp add: combine_def js_nth_def str_of_undefined_def)
      ultimately show ?thesis using even by (simp add: i)
    qed
    from "1.IH" [OF True refl lt up]
    have ih: "foldl (combine H) (?up ! (i div 2)) (proofSteps (?up # levelsAbove H ?up) (i div 2))
              = hd (last (?up # levelsAbove H ?up))"
      and one: "length (last (?up # levelsAbove H ?up)) = 1" by simp_all
    have ps: "proofSteps (level # ?up # levelsAbove H ?up) i
        = (i mod 2 = 1, js_nth level (if i mod 2 = 1 then i - 1 else i + 1))
          # proofSteps (?up # levelsAbove H ?up) (i div 2)"
      by (simp add: Let_def)
    have "foldl (combine H) (level ! i) (proofSteps (level # ?up # levelsAbove H ?up) i)
        = foldl (combine H) (?up ! (i div 2)) (proofSteps (?up # levelsAbove H ?up) (i div 2))"
      unfolding ps by (simp only: foldl_Cons step)
    moreover have "last (level # ?up # levelsAbove H ?up) = last (?up # levelsAbove H ?up)"
      by simp
    ultimately show ?thesis unfolding un using ih one by (simp only:)
  qed
qed

text \<open>
  C2, the part of the first half that holds: when at every level on the way up the leaf's
  node has a sibling (\<open>paired\<close>: its index is odd, or the next index is within the
  level), \<^verbatim>\<open>verifyProof\<close> accepts the proof that \<^verbatim>\<open>getProof\<close> returns.
\<close>

lemma roundtrip_paired:
  assumes "findIndex (\<lambda>h. h = x) (map (leafOf H) L) = Some i" and "paired (length L) i"
  shows "verifyProof H x (getProof (newMerkleTree H L) x) (getRoot (newMerkleTree H L))
           = Returned True"
proof -
  let ?leaves = "map (leafOf H) L"
  let ?tree = "?leaves # levelsAbove H ?leaves"
  from findIndex_Some [OF assms(1)] have i: "i < length ?leaves" and x: "?leaves ! i = x"
    by simp_all
  then have ne: "L \<noteq> []" by auto
  have tree: "mt_tree (newMerkleTree H L) = ?tree"
    using ne by (simp add: newMerkleTree_def buildTree_def Let_def)
  from climb [OF i, of H] assms(2)
  have c: "foldl (combine H) x (proofSteps ?tree i) = hd (last ?tree)"
    and one: "length (last ?tree) = 1"
    by (simp_all add: x)
  from one have root: "getRoot (newMerkleTree H L) = Some (hd (last ?tree))"
    using ne
    by (cases "last ?tree")
      (simp_all add: getRoot_def newMerkleTree_def buildTree_def rootOf_def js_nth_def Let_def)
  have pr: "getProof (newMerkleTree H L) x
      = Some \<lparr>path = map fst (proofSteps ?tree i), siblings = map snd (proofSteps ?tree i)\<rparr>"
    using assms(1) by (simp add: getProof_def tree Let_def)
  have "verifyLoop H (map fst (proofSteps ?tree i)) (map snd (proofSteps ?tree i)) 0 x
          = foldl (combine H) x (proofSteps ?tree i)"
    using verifyLoop_foldl [of H "proofSteps ?tree i" "[]" x] by simp
  with c show ?thesis by (simp add: verifyProof_def pr root)
qed

lemma paired_power_of_two: "i < 2 ^ k \<Longrightarrow> paired (2 ^ k) i"
proof (induction k arbitrary: i)
  case 0
  then show ?case by (simp add: paired.simps)
next
  case (Suc k)
  have h: "((2::nat) ^ Suc k + 1) div 2 = 2 ^ k" by simp
  from Suc.prems have "i div 2 < 2 ^ k" by simp
  then have up: "paired (2 ^ k) (i div 2)" by (rule Suc.IH)
  have "i mod 2 = 1 \<or> i + 1 < 2 ^ Suc k"
  proof (cases "i mod 2 = 1")
    case True
    then show ?thesis by simp
  next
    case False
    then have "even i" by presburger
    moreover have "even ((2::nat) ^ Suc k)" by simp
    ultimately have "i + 1 \<noteq> 2 ^ Suc k" by (metis even_plus_one_iff)
    with Suc.prems show ?thesis by simp
  qed
  with up h show ?case by (subst paired.simps) (simp del: power_Suc)
qed

text \<open>In particular the round trip holds for every leaf of a tree whose number of
  leaves is a power of two.\<close>

lemma roundtrip_power_of_two:
  assumes "length L = 2 ^ k" and "x \<in> set (map (leafOf H) L)"
  shows "verifyProof H x (getProof (newMerkleTree H L) x) (getRoot (newMerkleTree H L))
           = Returned True"
proof -
  from assms(2) obtain i where i: "findIndex (\<lambda>h. h = x) (map (leafOf H) L) = Some i"
    using findIndex_None_iff [of "\<lambda>h. h = x" "map (leafOf H) L"] by (cases "findIndex (\<lambda>h. h = x) (map (leafOf H) L)") auto
  from findIndex_Some [OF i] assms(1) have "i < 2 ^ k" by simp
  then have "paired (length L) i" unfolding assms(1) by (rule paired_power_of_two)
  with i show ?thesis by (rule roundtrip_paired)
qed

end
